theory Spec2Isabelle
  imports Complex_Main "HOL-Library.Log_Nat"
begin

section \<open>Data model\<close>

text \<open>
  Times. A Python \<open>datetime\<close> is modelled as the number of microseconds since a fixed
  epoch, a \<open>date\<close> as a number of days. \<open>date_of\<close> is \<open>datetime.date()\<close> and SQL
  \<open>func.date\<close>; \<open>strptime_date\<close> is \<open>datetime.strptime(s, "%Y-%m-%d")\<close> on a string
  that parses (midnight of that day).
\<close>

type_synonym datetime = int
type_synonym date = int

definition microseconds_per_day :: int where
  "microseconds_per_day = 86400000000"

definition microseconds_per_hour :: int where
  "microseconds_per_hour = 3600000000"

definition date_of :: "datetime \<Rightarrow> date" where
  "date_of t = t div microseconds_per_day"

definition strptime_date :: "date \<Rightarrow> datetime" where
  "strptime_date d = d * microseconds_per_day"

text \<open>
  Money. Amounts are Python floats, that is IEEE binary64 values; a float is modelled as the
  rational it denotes. \<open>fl\<close> rounds a rational to the nearest binary64 value, ties to
  even (the exponent range is not modelled: no overflow, no subnormals). A float
  operation is the exact operation followed by \<open>fl\<close>, and \<open>float(x)\<close> of a decimal is
  \<open>fl x\<close>. \<open>round2\<close> is \<open>round(x, 2)\<close> on a float: the exact value rounded half to even
  at two decimals, then the nearest float.
\<close>

definition pow2 :: "int \<Rightarrow> rat" where
  "pow2 e = (if 0 \<le> e then 2 ^ nat e else 1 / 2 ^ nat (- e))"

definition round_half_even :: "rat \<Rightarrow> int" where
  "round_half_even y =
     (let n = \<lfloor>y\<rfloor>; f = y - of_int n
      in if f < 1 / 2 then n else if 1 / 2 < f then n + 1 else if even n then n else n + 1)"

text \<open>The integer part of the binary logarithm of a positive rational.\<close>

definition ilog2 :: "rat \<Rightarrow> int" where
  "ilog2 x =
     (case quotient_of x of
        (p, q) \<Rightarrow> let k = bitlen p - bitlen q in if pow2 k \<le> x then k else k - 1)"

definition fl :: "rat \<Rightarrow> rat" where
  "fl x =
     (if x = 0 then 0
      else let e = ilog2 \<bar>x\<bar> - 52;
               m = round_half_even (\<bar>x\<bar> / pow2 e)
           in sgn x * of_int m * pow2 e)"

definition round2 :: "rat \<Rightarrow> rat" where
  "round2 x = fl (of_int (round_half_even (x * 100)) / 100)"

text \<open>\<open>str.upper\<close> on ASCII letters.\<close>

definition upper_char :: "char \<Rightarrow> char" where
  "upper_char c =
     (case map_of (zip ''abcdefghijklmnopqrstuvwxyz'' ''ABCDEFGHIJKLMNOPQRSTUVWXYZ'') c of
        None \<Rightarrow> c
      | Some u \<Rightarrow> u)"

definition upper :: "string \<Rightarrow> string" where
  "upper s = map upper_char s"

text \<open>\<open>BookingStatusEnum\<close> of \<open>database/models/booking.py\<close>.\<close>

datatype BookingStatus = CART | PENDING | CONFIRMED | CANCELLED | EXPIRED | COMPLETED

text \<open>\<open>PaymentStatusEnum\<close> and the API's \<open>PaymentMethod\<close>.\<close>

datatype PaymentStatusEnum =
  P_PENDING | P_PROCESSING | P_COMPLETED | P_FAILED | P_REFUNDED | P_CANCELLED

datatype PaymentMethod = CARD | BKASH | NAGAD | ROCKET | UPAY | BANK_TRANSFER

datatype CouponType = PERCENTAGE | FIXED_AMOUNT | FIRST_TIME | SEASONAL

record PassengerDetails =
  pd_name :: string
  pd_age :: int
  pd_gender :: string
  pd_seat_number :: int
  pd_phone :: "string option"
  pd_id_type :: "string option"
  pd_id_number :: "string option"

text \<open>
  A row of \<open>bookings\<close>. \<open>b_cancelled_at\<close>, \<open>b_cancellation_reason\<close> and
  \<open>b_confirmed_at\<close> are the attributes the routes and the service assign on the row.
  The class \<open>Booking\<close> of \<open>database/models/booking.py\<close> declares the names of
  \<open>Booking_declared\<close> (columns, relationships, properties) and no others: an expression
  that reads another name from the class, or from a row as loaded, raises AttributeError.
\<close>

definition Booking_declared :: "string list" where
  "Booking_declared =
     [''id'', ''user_id'', ''transport_id'', ''schedule_id'', ''seats'', ''seat_class'',
      ''passenger_details'', ''total_price'', ''status'', ''pnr'', ''booking_date'',
      ''travel_date'', ''expires_at'', ''created_at'', ''updated_at'', ''user'', ''vehicle'',
      ''schedule'', ''payment'', ''seat_count'', ''is_expired'']"

record Booking =
  b_id :: int
  b_user_id :: int
  b_transport_id :: int
  b_schedule_id :: "int option"
  b_seats :: "int list"
  b_seat_class :: string
  b_passenger_details :: "PassengerDetails list"
  b_total_price :: rat
  b_status :: BookingStatus
  b_pnr :: "string option"
  b_booking_date :: "datetime option"
  b_travel_date :: "datetime option"
  b_expires_at :: "datetime option"
  b_cancelled_at :: "datetime option"
  b_cancellation_reason :: "string option"
  b_confirmed_at :: "datetime option"

record Payment =
  p_id :: int
  p_booking_id :: int
  p_user_id :: int
  p_amount :: rat
  p_discount_amount :: rat
  p_final_amount :: rat
  p_method :: PaymentMethod
  p_status :: PaymentStatusEnum
  p_transaction_id :: "string option"
  p_gateway_response :: "string option"
  p_coupon_code :: "string option"
  p_coupon_discount_percent :: "rat option"
  p_payment_time :: "datetime option"
  p_refund_amount :: "rat option"
  p_refunded_at :: "datetime option"
  p_refund_status :: "string option"
  p_refund_initiated_at :: "datetime option"

record Coupon =
  c_code :: string
  c_coupon_type :: CouponType
  c_discount_percent :: "rat option"
  c_discount_amount :: "rat option"
  c_min_order_value :: rat
  c_max_discount :: "rat option"
  c_usage_limit :: "int option"
  c_usage_count :: int
  c_user_usage_limit :: "int option"
  c_is_active :: bool
  c_valid_from :: "datetime option"
  c_valid_until :: "datetime option"

text \<open>
  \<open>class_prices\<close> is a JSON object: an association list from class name to price, in
  the dictionary's order, or \<open>None\<close> for SQL NULL.
\<close>

record Vehicle =
  v_id :: int
  v_total_seats :: int
  v_class_prices :: "(string \<times> rat) list option"

record Schedule =
  s_id :: int
  s_vehicle_id :: int
  s_base_price :: "rat option"
  s_is_active :: "int option"

record db =
  bookings :: "Booking list"
  payments :: "Payment list"
  coupons :: "Coupon list"
  schedules :: "Schedule list"
  vehicles :: "Vehicle list"

section \<open>Seat availability\<close>

text \<open>
  \<open>select(Schedule, Vehicle).join(Vehicle).where(Schedule.id == schedule_id)\<close>, first row.
\<close>

definition schedule_vehicle :: "db \<Rightarrow> int \<Rightarrow> (Schedule \<times> Vehicle) option" where
  "schedule_vehicle d sid =
     (case find (\<lambda>s. s_id s = sid) (schedules d) of
        None \<Rightarrow> None
      | Some s \<Rightarrow>
          (case find (\<lambda>v. v_id v = s_vehicle_id s) (vehicles d) of
             None \<Rightarrow> None
           | Some v \<Rightarrow> Some (s, v)))"

text \<open>
  The rows of the booked-seats query of \<open>check_availability\<close> and of
  \<open>get_seat_availability\<close>: the schedule's bookings with status CONFIRMED or PENDING,
  filtered by \<open>func.date(Booking.travel_date) == travel_date_obj\<close> when a travel date is
  given (a NULL travel date never compares equal).
\<close>

definition on_travel_date :: "date option \<Rightarrow> Booking \<Rightarrow> bool" where
  "on_travel_date td b =
     (case td of
        None \<Rightarrow> True
      | Some dt \<Rightarrow> (case b_travel_date b of None \<Rightarrow> False | Some t \<Rightarrow> date_of t = dt))"

definition booked_rows :: "db \<Rightarrow> int \<Rightarrow> date option \<Rightarrow> Booking list" where
  "booked_rows d sid td =
     filter (\<lambda>b. b_schedule_id b = Some sid
                \<and> (b_status b = CONFIRMED \<or> b_status b = PENDING)
                \<and> on_travel_date td b) (bookings d)"

text \<open>The flattening loop: \<open>booked_seats.extend(seat_list)\<close> for every row.\<close>

definition booked_seats :: "db \<Rightarrow> int \<Rightarrow> date option \<Rightarrow> int list" where
  "booked_seats d sid td = concat (map b_seats (booked_rows d sid td))"

text \<open>\<open>BookingService._get_price_for_class\<close>.\<close>

definition base_price_fallback :: "string \<Rightarrow> Schedule option \<Rightarrow> rat option" where
  "base_price_fallback normalized schedule =
     (case schedule of
        None \<Rightarrow> None
      | Some s \<Rightarrow> (if normalized = ''ECONOMY'' then s_base_price s else None))"

definition get_price_for_class :: "Vehicle \<Rightarrow> string \<Rightarrow> Schedule option \<Rightarrow> rat option" where
  "get_price_for_class vehicle seat_class schedule =
     (let normalized = upper seat_class in
      case v_class_prices vehicle of
        None \<Rightarrow> base_price_fallback normalized schedule
      | Some [] \<Rightarrow> base_price_fallback normalized schedule
      | Some cp \<Rightarrow>
          (case map_of cp normalized of
             Some price \<Rightarrow> Some price
           | None \<Rightarrow>
               (case find (\<lambda>(class_name, price). upper class_name = normalized) cp of
                  Some (class_name, price) \<Rightarrow> Some price
                | None \<Rightarrow> base_price_fallback normalized schedule)))"

datatype avail_error =
    ScheduleNotFound
  | ScheduleNotActive
  | CannotBookPastJourneys
  | SeatsAlreadyBooked "int set"
  | InvalidSeatNumbers "int list"
  | ClassNotAvailable string

record availability =
  price_per_seat :: rat
  a_total_price :: rat
  a_schedule_id :: int
  a_vehicle_id :: int

text \<open>
  \<open>BookingService.check_availability\<close>. \<open>now\<close> is \<open>datetime.now()\<close>; the travel date
  is \<open>None\<close> for a missing or empty string.
\<close>

definition check_availability ::
  "db \<Rightarrow> datetime \<Rightarrow> int \<Rightarrow> int list \<Rightarrow> string \<Rightarrow> date option \<Rightarrow> avail_error + availability" where
  "check_availability d now schedule_id seats seat_class travel_date =
     (case schedule_vehicle d schedule_id of
        None \<Rightarrow> Inl ScheduleNotFound
      | Some (schedule, vehicle) \<Rightarrow>
          if s_is_active schedule = None \<or> s_is_active schedule = Some 0
            then Inl ScheduleNotActive
          else if (case travel_date of None \<Rightarrow> False | Some dt \<Rightarrow> dt < date_of now)
            then Inl CannotBookPastJourneys
          else
            let conflicting_seats = set seats \<inter> set (booked_seats d schedule_id travel_date);
                invalid_seats = filter (\<lambda>seat. seat < 1 \<or> seat > v_total_seats vehicle) seats
            in if conflicting_seats \<noteq> {} then Inl (SeatsAlreadyBooked conflicting_seats)
               else if invalid_seats \<noteq> [] then Inl (InvalidSeatNumbers invalid_seats)
               else
                 (case get_price_for_class vehicle seat_class (Some schedule) of
                    None \<Rightarrow> Inl (ClassNotAvailable seat_class)
                  | Some price \<Rightarrow>
                      Inr \<lparr>price_per_seat = price,
                           a_total_price = fl (price * of_nat (length seats)),
                           a_schedule_id = schedule_id,
                           a_vehicle_id = v_id vehicle\<rparr>))"

text \<open>
  \<open>get_seat_availability\<close> of \<open>routes/seat_availability.py\<close>. After the two seat lists
  the function builds the query of recently cancelled bookings from
  \<open>Booking.cancelled_at\<close> (lines 88 to 102), outside any handler; the response follows
  only if that expression evaluates. Of the response the \<open>seat_availability\<close> object is
  modelled.
\<close>

record seat_availability =
  sa_total_seats :: int
  sa_available_seats :: nat
  sa_booked_seats :: nat
  available_seat_numbers :: "int list"
  booked_seat_numbers :: "int list"

datatype route_error = HTTP_404_Schedule_not_found | AttributeError string

definition get_seat_availability :: "db \<Rightarrow> int \<Rightarrow> date option \<Rightarrow> route_error + seat_availability" where
  "get_seat_availability d schedule_id travel_date =
     (case schedule_vehicle d schedule_id of
        None \<Rightarrow> Inl HTTP_404_Schedule_not_found
      | Some (schedule, vehicle) \<Rightarrow>
          let booked = booked_seats d schedule_id travel_date;
              all_seats = [1 .. v_total_seats vehicle];
              available = filter (\<lambda>seat. seat \<notin> set booked) all_seats
          in if ''cancelled_at'' \<notin> set Booking_declared
               then Inl (AttributeError ''cancelled_at'')
             else Inr \<lparr>sa_total_seats = v_total_seats vehicle,
                       sa_available_seats = length available,
                       sa_booked_seats = length booked,
                       available_seat_numbers = sort available,
                       booked_seat_numbers = sort booked\<rparr>)"

section \<open>Refunds and loyalty discounts\<close>

text \<open>
  \<open>calculate_refund_amount\<close> of \<open>routes/payment.py\<close>. \<open>hours_before\<close> is its
  \<open>(booking_date - cancellation_date).total_seconds() / 3600\<close>, the hours before
  departure.
\<close>

definition hours_before :: "datetime \<Rightarrow> datetime \<Rightarrow> rat" where
  "hours_before booking_date cancellation_date =
     fl (fl (of_int (booking_date - cancellation_date) / 1000000) / 3600)"

definition calculate_refund_amount :: "rat \<Rightarrow> datetime \<Rightarrow> datetime \<Rightarrow> rat" where
  "calculate_refund_amount original_amount booking_date cancellation_date =
     (let refund_percentage =
            (if hours_before booking_date cancellation_date \<ge> 48 then fl (90 / 100)
             else if hours_before booking_date cancellation_date \<ge> 24 then fl (75 / 100)
             else if hours_before booking_date cancellation_date \<ge> 12 then fl (50 / 100)
             else if hours_before booking_date cancellation_date \<ge> 4 then fl (25 / 100)
             else 0);
          refund_amount = fl (original_amount * refund_percentage);
          min_refund = 50
      in round2 (if refund_amount > 0 \<and> refund_amount < min_refund then 0 else refund_amount))"


text \<open>\<open>_compute_user_total_bookings\<close> and \<open>_get_auto_discount\<close>.\<close>

definition compute_user_total_bookings :: "db \<Rightarrow> int \<Rightarrow> nat" where
  "compute_user_total_bookings d user_id =
     length (filter (\<lambda>b. b_user_id b = user_id
                         \<and> (b_status b = CONFIRMED \<or> b_status b = COMPLETED)) (bookings d))"



section \<open>Request validation and booking creation\<close>

text \<open>
  \<open>str.isspace\<close> on ASCII, \<open>str.strip()\<close>, and "the stripped string is empty".
\<close>

definition is_space :: "char \<Rightarrow> bool" where
  "is_space c = ((of_char c :: nat) \<in> {9, 10, 11, 12, 13, 28, 29, 30, 31, 32})"

definition strip :: "string \<Rightarrow> string" where
  "strip s = rev (dropWhile is_space (rev (dropWhile is_space s)))"

definition blank :: "string \<Rightarrow> bool" where
  "blank s = list_all is_space s"

text \<open>
  The body of a booking request, as JSON of the right types. \<open>r_travel_date\<close> is \<open>None\<close>
  for a string that does not parse as \<open>%Y-%m-%d\<close>.
\<close>

record BookingRequest =
  r_schedule_id :: int
  r_seats :: "int list"
  r_seat_class :: "string option"
  r_passenger_details :: "PassengerDetails list"
  r_travel_date :: "date option"

text \<open>A validated \<open>BookingCreate\<close>.\<close>

record BookingCreate =
  bc_schedule_id :: int
  bc_seats :: "int list"
  bc_seat_class :: string
  bc_passenger_details :: "PassengerDetails list"
  bc_travel_date :: date

datatype validation_error =
    SeatsMinItems
  | SeatsMaxItems
  | DuplicateSeats
  | PassengerInvalid
  | PassengersMinItems
  | PassengersMaxItems
  | PassengersMismatch
  | InvalidDateFormat
  | TravelDateInPast

text \<open>The field constraints and the \<open>name\<close> validator of \<open>PassengerDetails\<close>.\<close>

definition passenger_valid :: "PassengerDetails \<Rightarrow> bool" where
  "passenger_valid p \<longleftrightarrow>
     2 \<le> length (pd_name p) \<and> length (pd_name p) \<le> 100 \<and> \<not> blank (pd_name p)
     \<and> 1 \<le> pd_age p \<and> pd_age p \<le> 120
     \<and> pd_gender p \<in> {''Male'', ''Female'', ''Other''}
     \<and> 1 \<le> pd_seat_number p
     \<and> (case pd_phone p of None \<Rightarrow> True | Some ph \<Rightarrow> length ph \<le> 15)
     \<and> (case pd_id_type p of
           None \<Rightarrow> True
         | Some t \<Rightarrow> t \<in> {''NID'', ''Passport'', ''Driving License''})
     \<and> (case pd_id_number p of None \<Rightarrow> True | Some n \<Rightarrow> length n \<le> 50)"

text \<open>
  \<open>seats\<close>: \<open>min_items=1\<close>, \<open>max_items=6\<close>, then \<open>validate_unique_seats\<close>.
\<close>

definition seats_errors :: "int list \<Rightarrow> validation_error list" where
  "seats_errors seats =
     (if length seats < 1 then [SeatsMinItems]
      else if length seats > 6 then [SeatsMaxItems]
      else if length seats \<noteq> card (set seats) then [DuplicateSeats]
      else [])"

text \<open>
  \<open>passenger_details\<close>: every item, \<open>min_items=1\<close>, \<open>max_items=6\<close>, then
  \<open>validate_passengers_match_seats\<close>, which compares with \<open>seats\<close> only when that
  field passed its own validation.
\<close>

definition passenger_errors :: "int list \<Rightarrow> PassengerDetails list \<Rightarrow> validation_error list" where
  "passenger_errors seats v =
     (if \<not> list_all passenger_valid v then [PassengerInvalid]
      else if length v < 1 then [PassengersMinItems]
      else if length v > 6 then [PassengersMaxItems]
      else if seats_errors seats = [] \<and> length v \<noteq> length seats then [PassengersMismatch]
      else [])"

text \<open>\<open>normalize_seat_class\<close>.\<close>

definition normalize_seat_class :: "string option \<Rightarrow> string" where
  "normalize_seat_class v =
     (case v of
        None \<Rightarrow> ''ECONOMY''
      | Some s \<Rightarrow> if blank s then ''ECONOMY'' else upper (strip s))"

text \<open>
  \<open>validate_travel_date\<close>. \<open>next_year\<close> stands for
  \<open>current_date.replace(year=current_date.year + 1)\<close>, \<open>None\<close> where that raises. The
  message for a date too far ahead contains neither "past" nor "advance", so the handler
  turns it into the format error.
\<close>

definition travel_date_errors ::
  "(date \<Rightarrow> date option) \<Rightarrow> datetime \<Rightarrow> date option \<Rightarrow> validation_error list" where
  "travel_date_errors next_year now v =
     (case v of
        None \<Rightarrow> [InvalidDateFormat]
      | Some travel_date \<Rightarrow>
          if travel_date < date_of now then [TravelDateInPast]
          else (case next_year (date_of now) of
                  None \<Rightarrow> [InvalidDateFormat]
                | Some max_advance_date \<Rightarrow>
                    if travel_date > max_advance_date then [InvalidDateFormat] else []))"

definition validate_booking_create ::
  "(date \<Rightarrow> date option) \<Rightarrow> datetime \<Rightarrow> BookingRequest
     \<Rightarrow> validation_error list + BookingCreate" where
  "validate_booking_create next_year now r =
     (let errors = seats_errors (r_seats r)
                     @ passenger_errors (r_seats r) (r_passenger_details r)
                     @ travel_date_errors next_year now (r_travel_date r)
      in case (errors, r_travel_date r) of
           ([], Some travel_date) \<Rightarrow>
             Inr \<lparr>bc_schedule_id = r_schedule_id r,
                  bc_seats = r_seats r,
                  bc_seat_class = normalize_seat_class (r_seat_class r),
                  bc_passenger_details = r_passenger_details r,
                  bc_travel_date = travel_date\<rparr>
         | _ \<Rightarrow> Inl errors)"

text \<open>
  A new primary key: larger than every key of the table.
\<close>

definition fresh_id :: "int list \<Rightarrow> int" where
  "fresh_id ids = fold max ids 0 + 1"

definition BOOKING_EXPIRY_MINUTES :: int where
  "BOOKING_EXPIRY_MINUTES = 30000"

text \<open>
  \<open>BookingService.create_booking\<close>: the availability check, then a row in status CART.
  The result is the failure message or the new booking's id.
\<close>

definition create_booking ::
  "db \<Rightarrow> datetime \<Rightarrow> int \<Rightarrow> BookingCreate \<Rightarrow> (avail_error + int) \<times> db" where
  "create_booking d now user_id booking_data =
     (case check_availability d now (bc_schedule_id booking_data) (bc_seats booking_data)
             (bc_seat_class booking_data) (Some (bc_travel_date booking_data)) of
        Inl message \<Rightarrow> (Inl message, d)
      | Inr availability \<Rightarrow>
          let new_booking =
                \<lparr>b_id = fresh_id (map b_id (bookings d)),
                 b_user_id = user_id,
                 b_transport_id = a_vehicle_id availability,
                 b_schedule_id = Some (bc_schedule_id booking_data),
                 b_seats = bc_seats booking_data,
                 b_seat_class = bc_seat_class booking_data,
                 b_passenger_details = bc_passenger_details booking_data,
                 b_total_price = a_total_price availability,
                 b_status = CART,
                 b_pnr = None,
                 b_booking_date = Some now,
                 b_travel_date = Some (strptime_date (bc_travel_date booking_data)),
                 b_expires_at = Some (now + BOOKING_EXPIRY_MINUTES * 60000000),
                 b_cancelled_at = None,
                 b_cancellation_reason = None,
                 b_confirmed_at = None\<rparr>
          in (Inr (b_id new_booking), d\<lparr>bookings := bookings d @ [new_booking]\<rparr>))"

text \<open>
  The route \<open>POST /bookings/\<close>: the body is validated into a \<open>BookingCreate\<close> before the
  handler runs; a body that fails is answered 422 and the handler is never entered.
\<close>

datatype create_response =
    HTTP_201_Created int
  | HTTP_422_Unprocessable "validation_error list"
  | HTTP_400_Bad_Request avail_error

definition create_booking_route ::
  "(date \<Rightarrow> date option) \<Rightarrow> db \<Rightarrow> datetime \<Rightarrow> int \<Rightarrow> BookingRequest
     \<Rightarrow> create_response \<times> db" where
  "create_booking_route next_year d now user_id r =
     (case validate_booking_create next_year now r of
        Inl errors \<Rightarrow> (HTTP_422_Unprocessable errors, d)
      | Inr booking_data \<Rightarrow>
          (case create_booking d now user_id booking_data of
             (Inl message, d') \<Rightarrow> (HTTP_400_Bad_Request message, d')
           | (Inr booking_id, d') \<Rightarrow> (HTTP_201_Created booking_id, d')))"

section \<open>Automatic expiry\<close>

text \<open>
  The rows selected by the sweep: status PENDING or CART and \<open>expires_at < current_time\<close>
  (a NULL \<open>expires_at\<close> is never selected).
\<close>

definition expired_row :: "datetime \<Rightarrow> Booking \<Rightarrow> bool" where
  "expired_row current_time b \<longleftrightarrow>
     (b_status b = PENDING \<or> b_status b = CART)
     \<and> (case b_expires_at b of None \<Rightarrow> False | Some e \<Rightarrow> e < current_time)"

definition expire :: "datetime \<Rightarrow> Booking \<Rightarrow> Booking" where
  "expire current_time b =
     b\<lparr>b_status := EXPIRED,
       b_cancelled_at := Some current_time,
       b_cancellation_reason := Some ''Auto-expired due to payment timeout''\<rparr>"

text \<open>
  \<open>BookingService.auto_cancel_expired_bookings\<close>. \<open>sw_logged\<close> lists the booking ids of
  the BOOKING_EXPIRED events logged by the run.
\<close>

record sweep_result =
  sw_count :: nat
  sw_logged :: "int list"
  sw_db :: db

definition auto_cancel_expired_bookings :: "db \<Rightarrow> datetime \<Rightarrow> sweep_result" where
  "auto_cancel_expired_bookings d current_time =
     (let expired_bookings = filter (expired_row current_time) (bookings d)
      in \<lparr>sw_count = length expired_bookings,
          sw_logged = map b_id expired_bookings,
          sw_db = d\<lparr>bookings := map (\<lambda>b. if expired_row current_time b
                                            then expire current_time b else b) (bookings d)\<rparr>\<rparr>)"

text \<open>
  \<open>auto_cancel_expired_bookings\<close> of \<open>routes/cancel.py\<close>; its loop body makes the three
  assignments and increments the counter twice.
\<close>

definition cancel_auto_cancel_expired_bookings :: "db \<Rightarrow> datetime \<Rightarrow> nat \<times> db" where
  "cancel_auto_cancel_expired_bookings d current_time =
     (let expired_bookings = filter (expired_row current_time) (bookings d)
      in (2 * length expired_bookings,
          d\<lparr>bookings := map (\<lambda>b. if expired_row current_time b
                                  then expire current_time b else b) (bookings d)\<rparr>))"

section \<open>Coupons\<close>

datatype coupon_message =
    InvalidCouponCode
  | CouponIsNotActive
  | CouponIsNotYetValid
  | CouponHasExpired
  | CouponUsageLimitExceeded
  | MinimumBookingAmountRequired rat
  | AlreadyUsedThisCoupon
  | MinimumOrderValueRequired rat
  | DiscountAppliedSuccessfully

text \<open>
  \<open>Coupon.is_valid\<close>: \<open>None\<close> for \<open>(True, "Valid")\<close>, otherwise the reason. \<open>now\<close> is
  \<open>datetime.utcnow()\<close>.
\<close>

definition is_valid :: "Coupon \<Rightarrow> datetime \<Rightarrow> coupon_message option" where
  "is_valid c now =
     (if \<not> c_is_active c then Some CouponIsNotActive
      else if (case c_valid_from c of None \<Rightarrow> False | Some t \<Rightarrow> now < t)
        then Some CouponIsNotYetValid
      else if (case c_valid_until c of None \<Rightarrow> False | Some t \<Rightarrow> now > t)
        then Some CouponHasExpired
      else if (case c_usage_limit c of
                 None \<Rightarrow> False
               | Some l \<Rightarrow> l \<noteq> 0 \<and> c_usage_count c \<ge> l)
        then Some CouponUsageLimitExceeded
      else None)"

text \<open>
  \<open>Coupon.calculate_discount\<close>: the pair of amount and message, or the TypeError that
  arithmetic on a NULL percentage or amount raises.
\<close>

datatype discount_result = Discount rat coupon_message | DiscountTypeError

definition calculate_discount :: "Coupon \<Rightarrow> datetime \<Rightarrow> rat \<Rightarrow> discount_result" where
  "calculate_discount c now order_amount =
     (case is_valid c now of
        Some reason \<Rightarrow> Discount 0 reason
      | None \<Rightarrow>
          if order_amount < c_min_order_value c
            then Discount 0 (MinimumOrderValueRequired (c_min_order_value c))
          else
            (case (case c_coupon_type c of
                     PERCENTAGE \<Rightarrow> map_option (\<lambda>p. (order_amount * p) / 100) (c_discount_percent c)
                   | FIXED_AMOUNT \<Rightarrow> c_discount_amount c
                   | FIRST_TIME \<Rightarrow> map_option (\<lambda>p. (order_amount * p) / 100) (c_discount_percent c)
                   | SEASONAL \<Rightarrow> map_option (\<lambda>p. (order_amount * p) / 100) (c_discount_percent c)) of
               None \<Rightarrow> DiscountTypeError
             | Some discount \<Rightarrow>
                 Discount (case c_max_discount c of
                             None \<Rightarrow> discount
                           | Some m \<Rightarrow> if m \<noteq> 0 \<and> discount > m then m else discount)
                          DiscountAppliedSuccessfully))"

text \<open>
  \<open>_seed_default_coupon_if_known\<close>. The columns the constructor leaves out take their
  defaults; the database clock that fills \<open>valid_from\<close> is taken to agree with \<open>now\<close>.
\<close>

definition default_coupon :: "datetime \<Rightarrow> string \<Rightarrow> Coupon option" where
  "default_coupon now key =
     (if key = ''WELCOME10'' then
        Some \<lparr>c_code = ''WELCOME10'', c_coupon_type = FIRST_TIME,
              c_discount_percent = Some 10, c_discount_amount = None,
              c_min_order_value = 500, c_max_discount = Some 200,
              c_usage_limit = Some 1000, c_usage_count = 0, c_user_usage_limit = Some 1,
              c_is_active = True, c_valid_from = Some now,
              c_valid_until = Some (now + 365 * microseconds_per_day)\<rparr>
      else if key = ''SUMMER25'' then
        Some \<lparr>c_code = ''SUMMER25'', c_coupon_type = SEASONAL,
              c_discount_percent = Some 25, c_discount_amount = None,
              c_min_order_value = 1000, c_max_discount = Some 500,
              c_usage_limit = Some 500, c_usage_count = 0, c_user_usage_limit = Some 1,
              c_is_active = True, c_valid_from = Some now,
              c_valid_until = Some (now + 90 * microseconds_per_day)\<rparr>
      else if key = ''FIXED100'' then
        Some \<lparr>c_code = ''FIXED100'', c_coupon_type = FIXED_AMOUNT,
              c_discount_percent = None, c_discount_amount = Some 100,
              c_min_order_value = 1000, c_max_discount = None,
              c_usage_limit = Some 200, c_usage_count = 0, c_user_usage_limit = Some 1,
              c_is_active = True, c_valid_from = Some now,
              c_valid_until = Some (now + 30 * microseconds_per_day)\<rparr>
      else None)"

definition seed_default_coupon_if_known :: "db \<Rightarrow> datetime \<Rightarrow> string \<Rightarrow> bool \<times> db" where
  "seed_default_coupon_if_known d now code =
     (let key = upper (strip code) in
      case find (\<lambda>c. c_code c = key) (coupons d) of
        Some c \<Rightarrow> (False, d)
      | None \<Rightarrow>
          (case default_coupon now key of
             None \<Rightarrow> (False, d)
           | Some coupon \<Rightarrow> (True, d\<lparr>coupons := coupons d @ [coupon]\<rparr>)))"

datatype coupon_outcome =
    CouponValid rat CouponType
  | CouponInvalid coupon_message
  | CouponTypeError

definition user_usage_count :: "db \<Rightarrow> int \<Rightarrow> Coupon \<Rightarrow> nat" where
  "user_usage_count d user_id coupon =
     length (filter (\<lambda>p. p_user_id p = user_id \<and> p_coupon_code p = Some (c_code coupon)
                         \<and> p_status p = P_COMPLETED) (payments d))"

text \<open>The checks of \<open>apply_coupon\<close> on the coupon row it found.\<close>

definition apply_found_coupon :: "db \<Rightarrow> datetime \<Rightarrow> Coupon \<Rightarrow> rat \<Rightarrow> int \<Rightarrow> coupon_outcome" where
  "apply_found_coupon d now coupon booking_amount user_id =
     (case is_valid coupon now of
        Some reason \<Rightarrow> CouponInvalid reason
      | None \<Rightarrow>
          if c_min_order_value coupon \<noteq> 0 \<and> booking_amount < c_min_order_value coupon
            then CouponInvalid (MinimumBookingAmountRequired (c_min_order_value coupon))
          else if (case c_user_usage_limit coupon of
                     None \<Rightarrow> False
                   | Some l \<Rightarrow> l \<noteq> 0 \<and> int (user_usage_count d user_id coupon) \<ge> l)
            then CouponInvalid AlreadyUsedThisCoupon
          else
            (case calculate_discount coupon now booking_amount of
               DiscountTypeError \<Rightarrow> CouponTypeError
             | Discount discount_amount msg \<Rightarrow>
                 if discount_amount \<le> 0 then CouponInvalid msg
                 else CouponValid discount_amount (c_coupon_type coupon)))"

text \<open>
  \<open>apply_coupon\<close>: the lookup by upper-cased code, the seeding of a known default when
  the lookup finds nothing, then the checks.
\<close>

definition apply_coupon :: "db \<Rightarrow> datetime \<Rightarrow> string \<Rightarrow> rat \<Rightarrow> int \<Rightarrow> coupon_outcome \<times> db" where
  "apply_coupon d now coupon_code booking_amount user_id =
     (case find (\<lambda>c. c_code c = upper coupon_code) (coupons d) of
        Some coupon \<Rightarrow> (apply_found_coupon d now coupon booking_amount user_id, d)
      | None \<Rightarrow>
          (case seed_default_coupon_if_known d now coupon_code of
             (False, d') \<Rightarrow> (CouponInvalid InvalidCouponCode, d')
           | (True, d') \<Rightarrow>
               (case find (\<lambda>c. c_code c = upper coupon_code) (coupons d') of
                  None \<Rightarrow> (CouponInvalid InvalidCouponCode, d')
                | Some coupon \<Rightarrow>
                    (apply_found_coupon d' now coupon booking_amount user_id, d'))))"

section \<open>Payment\<close>

text \<open>
  The payment gateway is an external collaborator: a function from the method, the amount
  and the booking and payment ids of the reference to its answer. The payment details,
  which the route only forwards, are part of that function.
\<close>

datatype gateway_result = GatewaySuccess string string | GatewayFailure string

record PaymentCreate =
  pc_booking_id :: int
  pc_payment_method :: PaymentMethod
  pc_coupon_code :: "string option"
  pc_apply_coupon :: "bool option"

datatype pay_error =
    BookingNotFound
  | AccessDenied
  | CannotPayForStatus BookingStatus
  | SeatsNoLongerAvailable avail_error
  | PaymentAlreadyCompleted
  | PaymentAlreadyBeingProcessed
  | BookingHasExpired
  | PassRequiresBookings string nat nat
  | CouponRejected coupon_message
  | PaymentFailed string
  | UnhandledError

definition status_code :: "pay_error \<Rightarrow> nat" where
  "status_code e =
     (case e of BookingNotFound \<Rightarrow> 404 | AccessDenied \<Rightarrow> 403 | UnhandledError \<Rightarrow> 500 | _ \<Rightarrow> 400)"

definition update_booking :: "db \<Rightarrow> int \<Rightarrow> (Booking \<Rightarrow> Booking) \<Rightarrow> db" where
  "update_booking d booking_id f =
     d\<lparr>bookings := map (\<lambda>b. if b_id b = booking_id then f b else b) (bookings d)\<rparr>"

definition update_payment :: "db \<Rightarrow> int \<Rightarrow> (Payment \<Rightarrow> Payment) \<Rightarrow> db" where
  "update_payment d payment_id f =
     d\<lparr>payments := map (\<lambda>p. if p_id p = payment_id then f p else p) (payments d)\<rparr>"

text \<open>Lines 108 to 134: the booking, its owner, its status.\<close>

definition load_booking :: "db \<Rightarrow> int \<Rightarrow> PaymentCreate \<Rightarrow> pay_error + Booking" where
  "load_booking d user_id payment_request =
     (case find (\<lambda>b. b_id b = pc_booking_id payment_request) (bookings d) of
        None \<Rightarrow> Inl BookingNotFound
      | Some booking \<Rightarrow>
          if b_user_id booking \<noteq> user_id then Inl AccessDenied
          else if b_status booking \<noteq> CART \<and> b_status booking \<noteq> PENDING
            then Inl (CannotPayForStatus (b_status booking))
          else Inr booking)"

text \<open>
  Lines 136 to 163: a CART booking passes the availability check again and becomes
  PENDING with the current price, or stays CART and the request fails.
\<close>

definition revalidate_cart :: "db \<Rightarrow> datetime \<Rightarrow> Booking \<Rightarrow> (pay_error + Booking) \<times> db" where
  "revalidate_cart d now booking =
     (if b_status booking = CART then
        (case (case b_schedule_id booking of
                 None \<Rightarrow> Inl ScheduleNotFound
               | Some schedule_id \<Rightarrow>
                   check_availability d now schedule_id (b_seats booking) (b_seat_class booking)
                     (map_option date_of (b_travel_date booking))) of
           Inl message \<Rightarrow>
             (Inl (SeatsNoLongerAvailable message),
              update_booking d (b_id booking) (\<lambda>b. b\<lparr>b_status := CART\<rparr>))
         | Inr availability \<Rightarrow>
             (Inr (booking\<lparr>b_status := PENDING, b_total_price := a_total_price availability\<rparr>),
              update_booking d (b_id booking)
                (\<lambda>b. b\<lparr>b_status := PENDING, b_total_price := a_total_price availability\<rparr>)))
      else (Inr booking, d))"

text \<open>
  Lines 166 to 187: a COMPLETED or PENDING payment of the booking stops the request, a
  FAILED one is deleted.
\<close>

definition clear_existing_payment :: "db \<Rightarrow> Booking \<Rightarrow> (pay_error + unit) \<times> db" where
  "clear_existing_payment d booking =
     (case find (\<lambda>p. p_booking_id p = b_id booking) (payments d) of
        None \<Rightarrow> (Inr (), d)
      | Some existing_payment \<Rightarrow>
          if p_status existing_payment = P_COMPLETED then (Inl PaymentAlreadyCompleted, d)
          else if p_status existing_payment = P_PENDING then (Inl PaymentAlreadyBeingProcessed, d)
          else if p_status existing_payment = P_FAILED
            then (Inr (), d\<lparr>payments := filter (\<lambda>p. p_id p \<noteq> p_id existing_payment) (payments d)\<rparr>)
          else (Inr (), d))"

text \<open>Lines 189 to 199: a booking past \<open>expires_at\<close> becomes EXPIRED.\<close>

definition check_expiry :: "db \<Rightarrow> datetime \<Rightarrow> Booking \<Rightarrow> (pay_error + unit) \<times> db" where
  "check_expiry d now booking =
     (if (case b_expires_at booking of None \<Rightarrow> False | Some e \<Rightarrow> e < now)
        then (Inl BookingHasExpired,
              update_booking d (b_id booking)
                (\<lambda>b. b\<lparr>b_status := EXPIRED, b_cancelled_at := Some now\<rparr>))
      else (Inr (), d))"

text \<open>
  Lines 201 to 248: the discount amount, the final amount, the coupon code applied and
  its percentage.
\<close>

definition resolve_discount ::
  "db \<Rightarrow> datetime \<Rightarrow> int \<Rightarrow> PaymentCreate \<Rightarrow> rat
     \<Rightarrow> (pay_error + rat \<times> rat \<times> string option \<times> rat option) \<times> db" where
  "resolve_discount d now user_id payment_request original_amount =
     (case pc_coupon_code payment_request of
        None \<Rightarrow> (Inr (0, original_amount, None, None), d)
      | Some coupon_code \<Rightarrow>
          if coupon_code = [] \<or> pc_apply_coupon payment_request \<noteq> Some True
            then (Inr (0, original_amount, None, None), d)
          else
            let coupon_upper = upper coupon_code;
                total_bookings = compute_user_total_bookings d user_id
            in if coupon_upper \<in> {''SILVER20'', ''SILVERPASS''} \<and> total_bookings \<ge> 20
                 then (Inr (round2 (fl (fl (original_amount * 5) / 100)),
                            max 0 (fl (original_amount
                                        - round2 (fl (fl (original_amount * 5) / 100)))),
                            Some coupon_code, Some 5), d)
               else if coupon_upper \<in> {''GOLD40'', ''GOLDPASS''} \<and> total_bookings \<ge> 40
                 then (Inr (round2 (fl (fl (original_amount * 8) / 100)),
                            max 0 (fl (original_amount
                                        - round2 (fl (fl (original_amount * 8) / 100)))),
                            Some coupon_code, Some 8), d)
               else if coupon_upper \<in> {''SILVER20'', ''SILVERPASS''}
                 then (Inl (PassRequiresBookings ''Silver'' 20 total_bookings), d)
               else if coupon_upper \<in> {''GOLD40'', ''GOLDPASS''}
                 then (Inl (PassRequiresBookings ''Gold'' 40 total_bookings), d)
               else
                 (case apply_coupon d now coupon_code original_amount user_id of
                    (CouponValid discount_amount coupon_type, d') \<Rightarrow>
                      (Inr (discount_amount, max 0 (fl (original_amount - discount_amount)),
                            Some coupon_code, None), d')
                  | (CouponInvalid msg, d') \<Rightarrow> (Inl (CouponRejected msg), d')
                  | (CouponTypeError, d') \<Rightarrow> (Inl UnhandledError, d')))"

text \<open>
  Lines 278 to 302: the Payment row in status PENDING. \<open>booking_id\<close> is unique in the
  table, so the flush fails when the booking still has a payment row.
\<close>

definition create_payment ::
  "db \<Rightarrow> int \<Rightarrow> PaymentCreate \<Rightarrow> Booking \<Rightarrow> rat \<times> rat \<times> string option \<times> rat option
     \<Rightarrow> (pay_error + Payment) \<times> db" where
  "create_payment d user_id payment_request booking discount =
     (case discount of (discount_amount, final_amount, coupon_applied, coupon_percent) \<Rightarrow>
        if find (\<lambda>p. p_booking_id p = b_id booking) (payments d) \<noteq> None
          then (Inl UnhandledError, d)
        else
          let original_amount = fl (b_total_price booking);
              payment =
                \<lparr>p_id = fresh_id (map p_id (payments d)),
                 p_booking_id = b_id booking,
                 p_user_id = user_id,
                 p_amount = original_amount,
                 p_discount_amount = discount_amount,
                 p_final_amount = final_amount,
                 p_method = pc_payment_method payment_request,
                 p_status = P_PENDING,
                 p_transaction_id = None,
                 p_gateway_response = None,
                 p_coupon_code = coupon_applied,
                 p_coupon_discount_percent = coupon_percent,
                 p_payment_time = None,
                 p_refund_amount = None,
                 p_refunded_at = None,
                 p_refund_status = None,
                 p_refund_initiated_at = None\<rparr>
          in (Inr payment, d\<lparr>payments := payments d @ [payment]\<rparr>))"

text \<open>
  Everything \<open>process_booking_payment\<close> does before it calls the gateway: an error with
  the tables as committed so far, or the booking and the new Payment row.
\<close>

definition pre_gateway ::
  "db \<Rightarrow> datetime \<Rightarrow> int \<Rightarrow> PaymentCreate \<Rightarrow> (pay_error + Booking \<times> Payment) \<times> db" where
  "pre_gateway d now user_id payment_request =
     (case load_booking d user_id payment_request of
        Inl e \<Rightarrow> (Inl e, d)
      | Inr booking0 \<Rightarrow>
          (case revalidate_cart d now booking0 of
             (Inl e, d1) \<Rightarrow> (Inl e, d1)
           | (Inr booking, d1) \<Rightarrow>
               (case clear_existing_payment d1 booking of
                  (Inl e, d2) \<Rightarrow> (Inl e, d2)
                | (Inr u, d2) \<Rightarrow>
                    (case check_expiry d2 now booking of
                       (Inl e, d3) \<Rightarrow> (Inl e, d3)
                     | (Inr u', d3) \<Rightarrow>
                         (case resolve_discount d3 now user_id payment_request
                                 (fl (b_total_price booking)) of
                            (Inl e, d4) \<Rightarrow> (Inl e, d4)
                          | (Inr discount, d4) \<Rightarrow>
                              (case create_payment d4 user_id payment_request booking discount of
                                 (Inl e, d5) \<Rightarrow> (Inl e, d5)
                               | (Inr payment, d5) \<Rightarrow> (Inr (booking, payment), d5)))))))"

text \<open>
  Lines 304 to 512, after the gateway answered. On success the payment is COMPLETED and
  the booking CONFIRMED with the PNR \<open>pnr\<close>. On failure the payment is marked FAILED with
  the gateway's error, and the handler of the HTTP error raised for it writes FAILED again
  with the error's detail.
\<close>

definition settle ::
  "string \<Rightarrow> db \<Rightarrow> datetime \<Rightarrow> Booking \<Rightarrow> Payment \<Rightarrow> gateway_result
     \<Rightarrow> (pay_error + int \<times> string) \<times> db" where
  "settle pnr d now booking payment payment_result =
     (case payment_result of
        GatewaySuccess transaction_id gateway_response \<Rightarrow>
          (Inr (p_id payment, transaction_id),
           update_booking
             (update_payment d (p_id payment)
                (\<lambda>p. p\<lparr>p_status := P_COMPLETED, p_transaction_id := Some transaction_id,
                        p_gateway_response := Some gateway_response,
                        p_payment_time := Some now\<rparr>))
             (b_id booking)
             (\<lambda>b. b\<lparr>b_status := CONFIRMED, b_pnr := Some pnr, b_confirmed_at := Some now\<rparr>))
      | GatewayFailure error \<Rightarrow>
          (Inl (PaymentFailed error),
           update_payment
             (update_payment d (p_id payment)
                (\<lambda>p. p\<lparr>p_status := P_FAILED, p_gateway_response := Some error\<rparr>))
             (p_id payment)
             (\<lambda>p. p\<lparr>p_status := P_FAILED,
                     p_gateway_response := Some (''Payment failed: '' @ error)\<rparr>)))"

text \<open>\<open>process_booking_payment\<close>. \<open>pnr\<close> is what \<open>generate_pnr()\<close> returns.\<close>

definition process_booking_payment ::
  "(PaymentMethod \<Rightarrow> rat \<Rightarrow> int \<Rightarrow> int \<Rightarrow> gateway_result) \<Rightarrow> string
     \<Rightarrow> db \<Rightarrow> datetime \<Rightarrow> int \<Rightarrow> PaymentCreate \<Rightarrow> (pay_error + int \<times> string) \<times> db" where
  "process_booking_payment gateway pnr d now user_id payment_request =
     (case pre_gateway d now user_id payment_request of
        (Inl e, d') \<Rightarrow> (Inl e, d')
      | (Inr (booking, payment), d') \<Rightarrow>
          settle pnr d' now booking payment
            (gateway (pc_payment_method payment_request) (p_final_amount payment)
               (b_id booking) (p_id payment)))"

text \<open>The row that the seeding creates for WELCOME10.\<close>

definition welcome10 :: "datetime \<Rightarrow> Coupon" where
  "welcome10 now =
     \<lparr>c_code = ''WELCOME10'', c_coupon_type = FIRST_TIME,
      c_discount_percent = Some 10, c_discount_amount = None,
      c_min_order_value = 500, c_max_discount = Some 200,
      c_usage_limit = Some 1000, c_usage_count = 0, c_user_usage_limit = Some 1,
      c_is_active = True, c_valid_from = Some now,
      c_valid_until = Some (now + 365 * microseconds_per_day)\<rparr>"

section \<open>Cancellation and refund routes\<close>





text \<open>
  \<open>process_refund\<close> of \<open>routes/payment.py\<close>. The arguments of its call of
  \<open>calculate_refund_amount\<close> read \<open>booking.cancelled_at\<close> from the row just loaded, and
  subtract from \<open>booking.travel_date\<close>, outside any handler. The refund gateway is an
  external collaborator: a function from the transaction id, the amount and the reason to
  its answer.
\<close>

datatype refund_gateway_result = RefundSuccess string | RefundFailure string

datatype refund_error =
    PaymentNotFound
  | RefundAccessDenied
  | OnlyCompletedPaymentsRefundable
  | BookingMustBeCancelled
  | RefundAttributeError string
  | RefundTypeError
  | NoRefundAmountDue
  | RefundProcessingFailed string

record RefundRequest =
  rr_payment_id :: int
  rr_reason :: string

definition process_refund ::
  "(string option \<Rightarrow> rat \<Rightarrow> string \<Rightarrow> refund_gateway_result)
     \<Rightarrow> db \<Rightarrow> datetime \<Rightarrow> int \<Rightarrow> bool \<Rightarrow> RefundRequest \<Rightarrow> (refund_error + rat) \<times> db" where
  "process_refund refund_gateway d now user_id is_admin refund_request =
     (case find (\<lambda>p. p_id p = rr_payment_id refund_request) (payments d) of
        None \<Rightarrow> (Inl PaymentNotFound, d)
      | Some payment \<Rightarrow>
          if p_user_id payment \<noteq> user_id \<and> \<not> is_admin then (Inl RefundAccessDenied, d)
          else if p_status payment \<noteq> P_COMPLETED
            then (Inl OnlyCompletedPaymentsRefundable, d)
          else
            (case find (\<lambda>b. b_id b = p_booking_id payment) (bookings d) of
               None \<Rightarrow> (Inl BookingMustBeCancelled, d)
             | Some booking \<Rightarrow>
                 if b_status booking \<noteq> CANCELLED then (Inl BookingMustBeCancelled, d)
                 else if ''cancelled_at'' \<notin> set Booking_declared
                   then (Inl (RefundAttributeError ''cancelled_at''), d)
                 else
                   (case b_travel_date booking of
                      None \<Rightarrow> (Inl RefundTypeError, d)
                    | Some travel_date \<Rightarrow>
                        let refund_amount =
                              calculate_refund_amount (fl (p_final_amount payment)) travel_date
                                (case b_cancelled_at booking of None \<Rightarrow> now | Some t \<Rightarrow> t)
                        in if refund_amount \<le> 0 then (Inl NoRefundAmountDue, d)
                           else
                             (case refund_gateway (p_transaction_id payment) refund_amount
                                     (rr_reason refund_request) of
                                RefundSuccess refund_id \<Rightarrow>
                                  (Inr refund_amount,
                                   update_payment d (p_id payment)
                                     (\<lambda>p. p\<lparr>p_refund_amount := Some refund_amount,
                                             p_refunded_at := Some now\<rparr>))
                              | RefundFailure error \<Rightarrow>
                                  (Inl (RefundProcessingFailed error), d)))))"

section \<open>Frame of a payment request\<close>

text \<open>
  What a request for booking \<open>i\<close> may change: on that booking anything but its id, owner,
  seats, schedule, travel date and class; on any other booking nothing; and never the
  schedules or the vehicles.
\<close>

definition payment_frame :: "int \<Rightarrow> Booking \<Rightarrow> Booking \<Rightarrow> bool" where
  "payment_frame i b b' \<longleftrightarrow>
     b_id b' = b_id b \<and> b_user_id b' = b_user_id b \<and> b_seats b' = b_seats b
     \<and> b_schedule_id b' = b_schedule_id b \<and> b_travel_date b' = b_travel_date b
     \<and> b_seat_class b' = b_seat_class b \<and> (b_id b \<noteq> i \<longrightarrow> b' = b)"

definition db_frame :: "int \<Rightarrow> db \<Rightarrow> db \<Rightarrow> bool" where
  "db_frame i d d' \<longleftrightarrow>
     schedules d' = schedules d \<and> vehicles d' = vehicles d
     \<and> list_all2 (payment_frame i) (bookings d) (bookings d')"

section \<open>Example states\<close>

definition hours :: "int \<Rightarrow> datetime" where
  "hours n = n * microseconds_per_hour"

definition ex_vehicle :: Vehicle where
  "ex_vehicle = \<lparr>v_id = 1, v_total_seats = 4, v_class_prices = None\<rparr>"

definition ex_schedule :: Schedule where
  "ex_schedule = \<lparr>s_id = 1, s_vehicle_id = 1, s_base_price = Some 500, s_is_active = Some 1\<rparr>"

definition ex_booking :: "int \<Rightarrow> int \<Rightarrow> int list \<Rightarrow> BookingStatus \<Rightarrow> Booking" where
  "ex_booking i u seats st =
     \<lparr>b_id = i, b_user_id = u, b_transport_id = 1, b_schedule_id = Some 1, b_seats = seats,
      b_seat_class = ''ECONOMY'', b_passenger_details = [],
      b_total_price = 500 * of_nat (length seats), b_status = st, b_pnr = None,
      b_booking_date = None, b_travel_date = Some (strptime_date 20000),
      b_expires_at = None, b_cancelled_at = None, b_cancellation_reason = None,
      b_confirmed_at = None\<rparr>"

definition ex_db :: "Booking list \<Rightarrow> db" where
  "ex_db bs = \<lparr>bookings = bs, payments = [], coupons = [],
              schedules = [ex_schedule], vehicles = [ex_vehicle]\<rparr>"

definition ex_stale_vehicle :: Vehicle where
  "ex_stale_vehicle =
     \<lparr>v_id = 1, v_total_seats = 4, v_class_prices = Some [(''economy'', 300)]\<rparr>"

definition ex_passenger :: "int \<Rightarrow> PassengerDetails" where
  "ex_passenger seat =
     \<lparr>pd_name = ''Ada Lovelace'', pd_age = 36, pd_gender = ''Female'', pd_seat_number = seat,
      pd_phone = None, pd_id_type = None, pd_id_number = None\<rparr>"

definition ex_request :: "int list \<Rightarrow> BookingRequest" where
  "ex_request seats =
     \<lparr>r_schedule_id = 1, r_seats = seats, r_seat_class = Some ''economy'',
      r_passenger_details = map ex_passenger seats, r_travel_date = Some 20000\<rparr>"

definition ex_now :: datetime where
  "ex_now = strptime_date 19990"

definition ex_next_year :: "date \<Rightarrow> date option" where
  "ex_next_year dt = Some (dt + 365)"

definition ex_cart_db :: db where
  "ex_cart_db = ex_db [(ex_booking 1 7 [1] CART)\<lparr>b_expires_at := Some 100\<rparr>,
                       (ex_booking 2 8 [2] CART)\<lparr>b_expires_at := Some 250\<rparr>]"

definition ex_used_coupon_db :: db where
  "ex_used_coupon_db =
     \<lparr>bookings = [ex_booking 1 7 [1] CONFIRMED],
      payments = [\<lparr>p_id = 1, p_booking_id = 1, p_user_id = 7, p_amount = 1000,
                   p_discount_amount = 100, p_final_amount = 900, p_method = CARD,
                   p_status = P_COMPLETED, p_transaction_id = Some ''CARD-1'',
                   p_gateway_response = None, p_coupon_code = Some ''WELCOME10'',
                   p_coupon_discount_percent = None, p_payment_time = Some 0,
                   p_refund_amount = None, p_refunded_at = None, p_refund_status = None,
                   p_refund_initiated_at = None\<rparr>],
      coupons = [welcome10 0], schedules = [ex_schedule], vehicles = [ex_vehicle]\<rparr>"



definition ex_pay_request :: "int \<Rightarrow> string option \<Rightarrow> PaymentCreate" where
  "ex_pay_request booking_id code =
     \<lparr>pc_booking_id = booking_id, pc_payment_method = CARD, pc_coupon_code = code,
      pc_apply_coupon = Some True\<rparr>"


definition ex_approving_gateway :: "PaymentMethod \<Rightarrow> rat \<Rightarrow> int \<Rightarrow> int \<Rightarrow> gateway_result" where
  "ex_approving_gateway m a i j = GatewaySuccess ''CARD-TX'' ''SUCCESS''"


definition ex_create :: "int list \<Rightarrow> BookingCreate" where
  "ex_create seats =
     \<lparr>bc_schedule_id = 1, bc_seats = seats, bc_seat_class = ''ECONOMY'',
      bc_passenger_details = map ex_passenger seats, bc_travel_date = 20000\<rparr>"

definition ex_one_cart :: db where
  "ex_one_cart = snd (create_booking (ex_db []) ex_now 7 (ex_create [1, 2]))"

definition ex_two_carts :: db where
  "ex_two_carts = snd (create_booking ex_one_cart ex_now 8 (ex_create [2, 3]))"

definition ex_first_paid :: db where
  "ex_first_paid =
     snd (process_booking_payment ex_approving_gateway ''TK123456'' ex_two_carts ex_now 7
            (ex_pay_request 1 None))"

lemmas ex_defs = ex_vehicle_def ex_schedule_def ex_booking_def ex_db_def
  strptime_date_def date_of_def microseconds_per_day_def microseconds_per_hour_def

section \<open>Occupied seats\<close>

lemma in_booked_seats_iff:
  "seat \<in> set (booked_seats d sid td) \<longleftrightarrow>
     (\<exists>b \<in> set (bookings d). b_schedule_id b = Some sid
        \<and> (b_status b = CONFIRMED \<or> b_status b = PENDING)
        \<and> on_travel_date td b \<and> seat \<in> set (b_seats b))"
  by (auto simp: booked_seats_def booked_rows_def)

lemma on_travel_date_Some:
  "on_travel_date (Some dt) b \<longleftrightarrow> (\<exists>t. b_travel_date b = Some t \<and> date_of t = dt)"
  by (simp add: on_travel_date_def split: option.splits)

lemma booked_rows_drop_inactive:
  "booked_rows (d\<lparr>bookings := filter (\<lambda>b. b_status b \<noteq> CART \<and> b_status b \<noteq> CANCELLED
                                          \<and> b_status b \<noteq> EXPIRED) (bookings d)\<rparr>) sid td
     = booked_rows d sid td"
  unfolding booked_rows_def by (auto intro: filter_cong)

text \<open>
  Claim C2. For a schedule and a travel date, a seat number is in the occupied list of the
  availability computation exactly when some booking of that schedule, whose travel date
  falls on the requested date, has status PENDING or CONFIRMED and lists the seat.
  Bookings with status CART, CANCELLED or EXPIRED contribute nothing: removing them from
  the table leaves the occupied list as it is.
\<close>

theorem occupied_iff_active_booking:
  "(seat \<in> set (booked_seats d sid (Some dt)) \<longleftrightarrow>
     (\<exists>b \<in> set (bookings d). b_schedule_id b = Some sid
        \<and> (\<exists>t. b_travel_date b = Some t \<and> date_of t = dt)
        \<and> (b_status b = PENDING \<or> b_status b = CONFIRMED)
        \<and> seat \<in> set (b_seats b)))
   \<and> booked_seats (d\<lparr>bookings := filter (\<lambda>b. b_status b \<noteq> CART \<and> b_status b \<noteq> CANCELLED
                                              \<and> b_status b \<noteq> EXPIRED) (bookings d)\<rparr>)
        sid (Some dt)
       = booked_seats d sid (Some dt)"
proof
  show "seat \<in> set (booked_seats d sid (Some dt)) \<longleftrightarrow>
     (\<exists>b \<in> set (bookings d). b_schedule_id b = Some sid
        \<and> (\<exists>t. b_travel_date b = Some t \<and> date_of t = dt)
        \<and> (b_status b = PENDING \<or> b_status b = CONFIRMED)
        \<and> seat \<in> set (b_seats b))"
    unfolding in_booked_seats_iff on_travel_date_Some by blast
next
  show "booked_seats (d\<lparr>bookings := filter (\<lambda>b. b_status b \<noteq> CART \<and> b_status b \<noteq> CANCELLED
                                              \<and> b_status b \<noteq> EXPIRED) (bookings d)\<rparr>)
          sid (Some dt)
       = booked_seats d sid (Some dt)"
    by (simp add: booked_seats_def booked_rows_drop_inactive)
qed

theorem occupied_iff_active_booking_witness:
  "1 \<in> set (booked_seats (ex_db [ex_booking 1 7 [1, 2] CONFIRMED, ex_booking 2 8 [3] CART])
             1 (Some 20000))
   \<and> 3 \<notin> set (booked_seats (ex_db [ex_booking 1 7 [1, 2] CONFIRMED, ex_booking 2 8 [3] CART])
                1 (Some 20000))"
  using occupied_iff_active_booking
          [of 1 "ex_db [ex_booking 1 7 [1, 2] CONFIRMED, ex_booking 2 8 [3] CART]" 1 20000]
        occupied_iff_active_booking
          [of 3 "ex_db [ex_booking 1 7 [1, 2] CONFIRMED, ex_booking 2 8 [3] CART]" 1 20000]
  by (simp add: ex_defs)

section \<open>The price of a seat class\<close>

lemma get_price_for_class_nonempty:
  "cp \<noteq> [] \<Longrightarrow>
   get_price_for_class (v\<lparr>v_class_prices := Some cp\<rparr>) c sch =
     (case map_of cp (upper c) of
        Some price \<Rightarrow> Some price
      | None \<Rightarrow>
          (case find (\<lambda>(class_name, price). upper class_name = upper c) cp of
             Some (class_name, price) \<Rightarrow> Some price
           | None \<Rightarrow> base_price_fallback (upper c) sch))"
  by (cases cp) (auto simp: get_price_for_class_def Let_def split: option.splits)

lemma upper_ECONOMY: "upper ''ECONOMY'' = ''ECONOMY''"
  by (simp add: upper_def upper_char_def)

text \<open>
  What the service does guarantee: the schedule's base price is the ECONOMY price when the
  vehicle has no class prices, or none under a key that upper-cases to ECONOMY.
\<close>

lemma price_economy_base_price:
  assumes "\<forall>(k, p) \<in> set cp. upper k \<noteq> ''ECONOMY''"
  shows "get_price_for_class (v\<lparr>v_class_prices := Some cp\<rparr>) ''ECONOMY'' (Some s) = s_base_price s"
proof (cases "cp = []")
  case True
  then show ?thesis
    by (simp add: get_price_for_class_def upper_ECONOMY base_price_fallback_def)
next
  case False
  have f: "find (\<lambda>(class_name, price). upper class_name = ''ECONOMY'') cp = None"
    using assms by (auto simp: find_None_iff)
  have m: "map_of cp ''ECONOMY'' = None"
  proof (rule ccontr)
    assume "map_of cp ''ECONOMY'' \<noteq> None"
    then obtain p where "(''ECONOMY'', p) \<in> set cp" by (auto dest: map_of_SomeD)
    with assms upper_ECONOMY show False by fastforce
  qed
  show ?thesis
    by (simp add: get_price_for_class_nonempty [OF False] upper_ECONOMY f m
        base_price_fallback_def)
qed

lemma price_economy_no_class_prices:
  "get_price_for_class (v\<lparr>v_class_prices := None\<rparr>) ''ECONOMY'' (Some s) = s_base_price s"
  by (simp add: get_price_for_class_def upper_ECONOMY base_price_fallback_def)

text \<open>
  Claim C4. The price resolved for seat class ECONOMY should be the schedule's base price
  whatever the vehicle stores under an economy key. The service returns the vehicle's
  entry instead: with \<open>class_prices = {"economy": 300}\<close> and a base price of 500 it
  resolves 300.
\<close>

theorem economy_price_takes_stale_vehicle_price:
  "get_price_for_class ex_stale_vehicle ''ECONOMY'' (Some ex_schedule) = Some 300
   \<and> s_base_price ex_schedule = Some 500"
  by (simp add: get_price_for_class_def ex_stale_vehicle_def ex_schedule_def upper_def
      upper_char_def base_price_fallback_def)

section \<open>Bounds on a booking request\<close>

lemma validate_Inr_bounds:
  assumes "validate_booking_create ny now r = Inr bc"
  shows "seats_errors (r_seats r) = []" "passenger_errors (r_seats r) (r_passenger_details r) = []"
    "bc_seats bc = r_seats r" "bc_passenger_details bc = r_passenger_details r"
  using assms
  by (auto simp: validate_booking_create_def Let_def split: list.splits option.splits)

lemma seats_errors_Nil:
  "seats_errors seats = [] \<longleftrightarrow> 1 \<le> length seats \<and> length seats \<le> 6 \<and> distinct seats"
proof -
  have "length seats = card (set seats) \<longleftrightarrow> distinct seats"
    using card_distinct distinct_card by metis
  moreover have "length seats < 1 \<longleftrightarrow> seats = []" by (cases seats) simp_all
  ultimately show ?thesis
    by (cases seats) (simp_all add: seats_errors_def)
qed

lemma passenger_errors_Nil:
  "seats_errors seats = [] \<Longrightarrow>
   passenger_errors seats v = [] \<longleftrightarrow>
     list_all passenger_valid v \<and> 1 \<le> length v \<and> length v \<le> 6 \<and> length v = length seats"
  by (cases v; cases seats) (auto simp: passenger_errors_def)

lemma validate_rejects:
  assumes "seats_errors (r_seats r) \<noteq> [] \<or> passenger_errors (r_seats r) (r_passenger_details r) \<noteq> []"
  shows "\<exists>errors. validate_booking_create ny now r = Inl errors"
  using assms
  by (auto simp: validate_booking_create_def Let_def split: list.splits option.splits)

lemma passenger_errors_len:
  "length v < 1 \<or> 6 < length v \<Longrightarrow> passenger_errors seats v \<noteq> []"
  by (auto simp: passenger_errors_def)

lemma seats_errors_len:
  "length seats < 1 \<or> 6 < length seats \<Longrightarrow> seats_errors seats \<noteq> []"
  by (auto simp: seats_errors_def)

text \<open>
  Claim C10. A booking request is accepted only with 1 to 6 seats and 1 to 6 passenger
  entries: a body with an empty seat list or more than 6 seats (likewise for
  \<open>passenger_details\<close>) is answered 422 by validation with the tables untouched, and
  whenever the route changes the tables both lists have between 1 and 6 entries.
\<close>

theorem booking_request_seat_bounds:
  "(length (r_seats r) < 1 \<or> 6 < length (r_seats r)
      \<or> length (r_passenger_details r) < 1 \<or> 6 < length (r_passenger_details r) \<longrightarrow>
      (\<exists>errors. create_booking_route ny d now u r = (HTTP_422_Unprocessable errors, d)))
   \<and> (snd (create_booking_route ny d now u r) \<noteq> d \<longrightarrow>
        1 \<le> length (r_seats r) \<and> length (r_seats r) \<le> 6
        \<and> 1 \<le> length (r_passenger_details r) \<and> length (r_passenger_details r) \<le> 6)
   \<and> (\<forall>booking_data. validate_booking_create ny now r = Inr booking_data \<longrightarrow>
        1 \<le> length (bc_seats booking_data) \<and> length (bc_seats booking_data) \<le> 6
        \<and> 1 \<le> length (bc_passenger_details booking_data)
        \<and> length (bc_passenger_details booking_data) \<le> 6)"
proof (intro conjI impI allI)
  assume a: "length (r_seats r) < 1 \<or> 6 < length (r_seats r)
      \<or> length (r_passenger_details r) < 1 \<or> 6 < length (r_passenger_details r)"
  then have "seats_errors (r_seats r) \<noteq> [] \<or> passenger_errors (r_seats r) (r_passenger_details r) \<noteq> []"
    using seats_errors_len passenger_errors_len by blast
  from validate_rejects [OF this]
  obtain errors where "validate_booking_create ny now r = Inl errors" by blast
  then show "\<exists>errors. create_booking_route ny d now u r = (HTTP_422_Unprocessable errors, d)"
    by (simp add: create_booking_route_def)
next
  assume ch: "snd (create_booking_route ny d now u r) \<noteq> d"
  then obtain bc where v: "validate_booking_create ny now r = Inr bc"
    by (cases "validate_booking_create ny now r") (auto simp: create_booking_route_def)
  from validate_Inr_bounds [OF v] seats_errors_Nil passenger_errors_Nil
  have b: "1 \<le> length (r_seats r) \<and> length (r_seats r) \<le> 6
        \<and> 1 \<le> length (r_passenger_details r) \<and> length (r_passenger_details r) \<le> 6"
    by metis
  from b show "1 \<le> length (r_seats r)" by simp
  from b show "length (r_seats r) \<le> 6" by simp
  from b show "1 \<le> length (r_passenger_details r)" by simp
  from b show "length (r_passenger_details r) \<le> 6" by simp
next
  fix bc assume v: "validate_booking_create ny now r = Inr bc"
  from validate_Inr_bounds [OF v] seats_errors_Nil passenger_errors_Nil
  have b: "1 \<le> length (bc_seats bc) \<and> length (bc_seats bc) \<le> 6
        \<and> 1 \<le> length (bc_passenger_details bc) \<and> length (bc_passenger_details bc) \<le> 6"
    by metis
  from b show "1 \<le> length (bc_seats bc)" by simp
  from b show "length (bc_seats bc) \<le> 6" by simp
  from b show "1 \<le> length (bc_passenger_details bc)" by simp
  from b show "length (bc_passenger_details bc) \<le> 6" by simp
qed

theorem booking_request_seat_bounds_witness:
  "create_booking_route ex_next_year (ex_db []) ex_now 7 (ex_request [1, 2, 3, 4, 5, 6, 7])
     = (HTTP_422_Unprocessable [SeatsMaxItems, PassengersMaxItems], ex_db [])
   \<and> create_booking_route ex_next_year (ex_db []) ex_now 7 (ex_request [])
     = (HTTP_422_Unprocessable [SeatsMinItems, PassengersMinItems], ex_db [])
   \<and> fst (create_booking_route ex_next_year (ex_db []) ex_now 7 (ex_request [1, 2]))
     = HTTP_201_Created 1
   \<and> map b_seats (bookings (snd (create_booking_route ex_next_year (ex_db []) ex_now 7
                                   (ex_request [1, 2])))) = [[1, 2]]"
proof -
  have a: "create_booking_route ex_next_year (ex_db []) ex_now 7 (ex_request [1, 2, 3, 4, 5, 6, 7])
     = (HTTP_422_Unprocessable [SeatsMaxItems, PassengersMaxItems], ex_db [])"
    by code_simp
  have b: "create_booking_route ex_next_year (ex_db []) ex_now 7 (ex_request [])
     = (HTTP_422_Unprocessable [SeatsMinItems, PassengersMinItems], ex_db [])"
    by code_simp
  have c: "fst (create_booking_route ex_next_year (ex_db []) ex_now 7 (ex_request [1, 2]))
     = HTTP_201_Created 1"
    by code_simp
  have e: "map b_seats (bookings (snd (create_booking_route ex_next_year (ex_db []) ex_now 7
                                   (ex_request [1, 2])))) = [[1, 2]]"
    by code_simp
  show ?thesis
    using booking_request_seat_bounds [of "ex_request [1, 2, 3, 4, 5, 6, 7]" ex_next_year "ex_db []" ex_now 7]
          booking_request_seat_bounds [of "ex_request [1, 2]" ex_next_year "ex_db []" ex_now 7]
    by (simp add: a b c e)
qed

section \<open>The expiry sweep\<close>

lemma expire_not_expired_row: "\<not> expired_row t2 (expire t1 b)"
  by (simp add: expired_row_def expire_def)

lemma sweep_step_stable:
  "\<not> expired_row t2 (if expired_row t1 b then expire t1 b else b)
   \<or> \<not> expired_row t1 b"
  by (simp add: expire_not_expired_row)

lemma sweep_bookings:
  "bookings (sw_db (auto_cancel_expired_bookings d t))
     = map (\<lambda>b. if expired_row t b then expire t b else b) (bookings d)"
  "bookings (snd (cancel_auto_cancel_expired_bookings d t))
     = map (\<lambda>b. if expired_row t b then expire t b else b) (bookings d)"
  by (simp_all add: auto_cancel_expired_bookings_def cancel_auto_cancel_expired_bookings_def Let_def)

lemma sweep_same_time_fixpoint:
  "map (\<lambda>b. if expired_row t b then expire t b else b)
     (map (\<lambda>b. if expired_row t b then expire t b else b) bs)
   = map (\<lambda>b. if expired_row t b then expire t b else b) bs"
  by (induction bs) (simp_all add: expire_not_expired_row)

lemma sweep_step_idem:
  "(\<lambda>b. if expired_row t b then expire t b else b) \<circ>
     (\<lambda>b. if expired_row t b then expire t b else b)
   = (\<lambda>b. if expired_row t b then expire t b else b)"
  by (rule ext) (simp add: expire_not_expired_row)

lemma filter_after_sweep:
  "filter (expired_row t) (map (\<lambda>b. if expired_row t b then expire t b else b) bs) = []"
  by (induction bs) (simp_all add: expire_not_expired_row)

lemma sweep_row:
  "i < length (bookings d) \<Longrightarrow>
   bookings (sw_db (auto_cancel_expired_bookings d t)) ! i
     = (if expired_row t (bookings d ! i) then expire t (bookings d ! i) else bookings d ! i)"
  "i < length (bookings d) \<Longrightarrow>
   bookings (snd (cancel_auto_cancel_expired_bookings d t)) ! i
     = (if expired_row t (bookings d ! i) then expire t (bookings d ! i) else bookings d ! i)"
  by (simp_all add: sweep_bookings)

lemma sweep_length:
  "length (bookings (sw_db (auto_cancel_expired_bookings d t))) = length (bookings d)"
  "length (bookings (snd (cancel_auto_cancel_expired_bookings d t))) = length (bookings d)"
  by (simp_all add: sweep_bookings)

lemma not_expired_row_inactive:
  "b_status b \<noteq> CART \<Longrightarrow> b_status b \<noteq> PENDING \<Longrightarrow> \<not> expired_row t b"
  by (simp add: expired_row_def)

lemma sweep_same_time:
  "auto_cancel_expired_bookings (sw_db (auto_cancel_expired_bookings d t)) t
     = \<lparr>sw_count = 0, sw_logged = [], sw_db = sw_db (auto_cancel_expired_bookings d t)\<rparr>"
  "cancel_auto_cancel_expired_bookings (snd (cancel_auto_cancel_expired_bookings d t)) t
     = (0, snd (cancel_auto_cancel_expired_bookings d t))"
  by (simp_all add: auto_cancel_expired_bookings_def cancel_auto_cancel_expired_bookings_def
      Let_def filter_after_sweep sweep_step_idem)

text \<open>
  Claim C8. The expiry sweep is idempotent. A booking that the first run moves from CART
  or PENDING to EXPIRED is not selected by the second run, whatever its clock, and keeps
  the status, \<open>cancelled_at\<close> and reason the first run gave it; in general a row that is
  neither CART nor PENDING after the first run is left as it is by the second; and a second
  run at the same clock selects nothing, logs nothing and leaves the table as it is.
  This holds for the service's sweep and for the one of the cancel routes.
\<close>

theorem expiry_sweep_idempotent:
  assumes "i < length (bookings d)"
  shows
    "(expired_row t1 (bookings d ! i) \<longrightarrow>
        \<not> expired_row t2 (bookings (sw_db (auto_cancel_expired_bookings d t1)) ! i)
        \<and> bookings (sw_db (auto_cancel_expired_bookings
                             (sw_db (auto_cancel_expired_bookings d t1)) t2)) ! i
            = expire t1 (bookings d ! i))
     \<and> (b_status (bookings (sw_db (auto_cancel_expired_bookings d t1)) ! i) \<noteq> CART
         \<and> b_status (bookings (sw_db (auto_cancel_expired_bookings d t1)) ! i) \<noteq> PENDING \<longrightarrow>
         bookings (sw_db (auto_cancel_expired_bookings
                            (sw_db (auto_cancel_expired_bookings d t1)) t2)) ! i
           = bookings (sw_db (auto_cancel_expired_bookings d t1)) ! i)
     \<and> auto_cancel_expired_bookings (sw_db (auto_cancel_expired_bookings d t1)) t1
         = \<lparr>sw_count = 0, sw_logged = [], sw_db = sw_db (auto_cancel_expired_bookings d t1)\<rparr>
     \<and> (expired_row t1 (bookings d ! i) \<longrightarrow>
         bookings (snd (cancel_auto_cancel_expired_bookings
                          (snd (cancel_auto_cancel_expired_bookings d t1)) t2)) ! i
           = expire t1 (bookings d ! i))
     \<and> (b_status (bookings (snd (cancel_auto_cancel_expired_bookings d t1)) ! i) \<noteq> CART
         \<and> b_status (bookings (snd (cancel_auto_cancel_expired_bookings d t1)) ! i) \<noteq> PENDING \<longrightarrow>
         bookings (snd (cancel_auto_cancel_expired_bookings
                          (snd (cancel_auto_cancel_expired_bookings d t1)) t2)) ! i
           = bookings (snd (cancel_auto_cancel_expired_bookings d t1)) ! i)
     \<and> cancel_auto_cancel_expired_bookings (snd (cancel_auto_cancel_expired_bookings d t1)) t1
         = (0, snd (cancel_auto_cancel_expired_bookings d t1))"
proof -
  let ?b1 = "bookings (sw_db (auto_cancel_expired_bookings d t1)) ! i"
  let ?c1 = "bookings (snd (cancel_auto_cancel_expired_bookings d t1)) ! i"
  have l1: "i < length (bookings (sw_db (auto_cancel_expired_bookings d t1)))"
    and l2: "i < length (bookings (snd (cancel_auto_cancel_expired_bookings d t1)))"
    using assms by (simp_all add: sweep_length)
  have r1: "?b1 = (if expired_row t1 (bookings d ! i) then expire t1 (bookings d ! i)
                   else bookings d ! i)"
    and r2: "?c1 = (if expired_row t1 (bookings d ! i) then expire t1 (bookings d ! i)
                   else bookings d ! i)"
    using assms by (simp_all add: sweep_row)
  have s1: "bookings (sw_db (auto_cancel_expired_bookings
                (sw_db (auto_cancel_expired_bookings d t1)) t2)) ! i
            = (if expired_row t2 ?b1 then expire t2 ?b1 else ?b1)"
    using l1 by (rule sweep_row(1))
  have s2: "bookings (snd (cancel_auto_cancel_expired_bookings
                (snd (cancel_auto_cancel_expired_bookings d t1)) t2)) ! i
            = (if expired_row t2 ?c1 then expire t2 ?c1 else ?c1)"
    using l2 by (rule sweep_row(2))
  show ?thesis
    unfolding s1 s2 sweep_same_time
    by (simp add: r1 r2 expire_not_expired_row not_expired_row_inactive)
qed

theorem expiry_sweep_idempotent_witness:
  "b_status (bookings (sw_db (auto_cancel_expired_bookings
               (sw_db (auto_cancel_expired_bookings ex_cart_db 200)) 300)) ! 0) = EXPIRED
   \<and> b_cancelled_at (bookings (sw_db (auto_cancel_expired_bookings
               (sw_db (auto_cancel_expired_bookings ex_cart_db 200)) 300)) ! 0) = Some 200
   \<and> sw_logged (auto_cancel_expired_bookings ex_cart_db 200) = [1]
   \<and> sw_logged (auto_cancel_expired_bookings
                  (sw_db (auto_cancel_expired_bookings ex_cart_db 200)) 300) = [2]"
proof -
  have l: "0 < length (bookings ex_cart_db)" by (simp add: ex_cart_db_def ex_db_def)
  have x: "expired_row 200 (bookings ex_cart_db ! 0)"
    by (simp add: ex_cart_db_def ex_db_def ex_booking_def expired_row_def)
  have a: "sw_logged (auto_cancel_expired_bookings ex_cart_db 200) = [1]" by code_simp
  have b: "sw_logged (auto_cancel_expired_bookings
                  (sw_db (auto_cancel_expired_bookings ex_cart_db 200)) 300) = [2]" by code_simp
  show ?thesis
    using expiry_sweep_idempotent [OF l, of 200 300] x a b
    by (simp add: expire_def)
qed

section \<open>The WELCOME10 coupon\<close>

lemma upper_WELCOME10: "upper ''WELCOME10'' = ''WELCOME10''"
  by code_simp

lemma strip_WELCOME10: "strip ''WELCOME10'' = ''WELCOME10''"
  by code_simp

lemma default_coupon_WELCOME10: "default_coupon now ''WELCOME10'' = Some (welcome10 now)"
  by (simp add: default_coupon_def welcome10_def)

lemma is_valid_welcome10: "is_valid (welcome10 now) now = None"
  by (simp add: is_valid_def welcome10_def microseconds_per_day_def)

lemma found_coupon_400:
  assumes "is_valid c now = None" and "c_min_order_value c = 500"
  shows "apply_found_coupon d now c 400 u = CouponInvalid (MinimumBookingAmountRequired 500)"
  using assms by (simp add: apply_found_coupon_def)

lemma find_appended_coupon:
  "find P xs = None \<Longrightarrow> P x \<Longrightarrow> find P (xs @ [x]) = Some x"
  by (induction xs) (auto split: if_splits)

lemma apply_coupon_found:
  assumes "find (\<lambda>c. c_code c = ''WELCOME10'') (coupons d) = Some c"
  shows "apply_coupon d now ''WELCOME10'' amount u = (apply_found_coupon d now c amount u, d)"
  using assms by (simp add: apply_coupon_def upper_WELCOME10)

lemma user_usage_count_coupons:
  "user_usage_count (d\<lparr>coupons := cs\<rparr>) u c = user_usage_count d u c"
  by (simp add: user_usage_count_def)

lemma calculate_discount_percent:
  assumes "is_valid c now = None" and "c_min_order_value c \<le> amount"
    and "c_discount_percent c = Some pct" and "c_coupon_type c \<noteq> FIXED_AMOUNT"
  shows "calculate_discount c now amount
     = Discount (case c_max_discount c of
                   None \<Rightarrow> (amount * pct) / 100
                 | Some m \<Rightarrow> if m \<noteq> 0 \<and> (amount * pct) / 100 > m then m else (amount * pct) / 100)
         DiscountAppliedSuccessfully"
  using assms
  by (cases "c_coupon_type c") (simp_all add: calculate_discount_def)

lemma found_coupon_1000:
  assumes "is_valid c now = None" and "c_min_order_value c = 500"
    and "c_discount_percent c = Some 10" and "c_max_discount c = Some 200"
    and "c_coupon_type c \<noteq> FIXED_AMOUNT"
    and "\<not> (case c_user_usage_limit c of
               None \<Rightarrow> False
             | Some l \<Rightarrow> l \<noteq> 0 \<and> int (user_usage_count d u c) \<ge> l)"
  shows "apply_found_coupon d now c 1000 u = CouponValid 100 (c_coupon_type c)"
proof -
  have "calculate_discount c now 1000 = Discount 100 DiscountAppliedSuccessfully"
    using assms by (simp add: calculate_discount_percent [where pct = 10])
  then show ?thesis
    using assms by (simp add: apply_found_coupon_def)
qed

lemma seed_WELCOME10:
  assumes "find (\<lambda>c. c_code c = ''WELCOME10'') (coupons d) = None"
  shows "seed_default_coupon_if_known d now ''WELCOME10''
           = (True, d\<lparr>coupons := coupons d @ [welcome10 now]\<rparr>)"
  unfolding seed_default_coupon_if_known_def Let_def strip_WELCOME10 upper_WELCOME10
    assms default_coupon_WELCOME10
  by simp

lemma apply_coupon_seeds:
  assumes "find (\<lambda>c. c_code c = ''WELCOME10'') (coupons d) = None"
  shows "apply_coupon d now ''WELCOME10'' amount u
    = (apply_found_coupon (d\<lparr>coupons := coupons d @ [welcome10 now]\<rparr>) now (welcome10 now) amount u,
       d\<lparr>coupons := coupons d @ [welcome10 now]\<rparr>)"
proof -
  have c: "c_code (welcome10 now) = ''WELCOME10''" by (simp add: welcome10_def)
  have f: "find (\<lambda>c. c_code c = ''WELCOME10'') (coupons d @ [welcome10 now])
             = Some (welcome10 now)"
    using find_appended_coupon
            [of "\<lambda>c. c_code c = ''WELCOME10''" "coupons d" "welcome10 now"] assms c
    by simp
  show ?thesis
    unfolding apply_coupon_def upper_WELCOME10 assms seed_WELCOME10 [OF assms]
    by (simp add: f)
qed

lemma welcome10_fields:
  "c_min_order_value (welcome10 now) = 500"
  "c_discount_percent (welcome10 now) = Some 10"
  "c_max_discount (welcome10 now) = Some 200"
  "c_coupon_type (welcome10 now) = FIRST_TIME"
  "c_user_usage_limit (welcome10 now) = Some 1"
  "c_code (welcome10 now) = ''WELCOME10''"
  by (simp_all add: welcome10_def)

lemma existing_400:
  assumes f: "find (\<lambda>c. c_code c = ''WELCOME10'') (coupons d) = Some c"
    and v: "is_valid c now = None" and m: "c_min_order_value c = 500"
  shows "apply_coupon d now ''WELCOME10'' 400 u
          = (CouponInvalid (MinimumBookingAmountRequired 500), d)"
  by (simp only: apply_coupon_found [OF f] found_coupon_400 [OF v m])

lemma existing_1000:
  assumes f: "find (\<lambda>c. c_code c = ''WELCOME10'') (coupons d) = Some c"
    and v: "is_valid c now = None" and t: "c_coupon_type c = FIRST_TIME"
    and p: "c_discount_percent c = Some 10" and m: "c_min_order_value c = 500"
    and x: "c_max_discount c = Some 200"
    and l: "\<not> (case c_user_usage_limit c of
                  None \<Rightarrow> False
                | Some l \<Rightarrow> l \<noteq> 0 \<and> int (user_usage_count d u c) \<ge> l)"
  shows "apply_coupon d now ''WELCOME10'' 1000 u = (CouponValid 100 FIRST_TIME, d)"
proof -
  have nf: "c_coupon_type c \<noteq> FIXED_AMOUNT" using t by simp
  show ?thesis
    by (simp only: apply_coupon_found [OF f] found_coupon_1000 [OF v m p x nf l] t)
qed

lemma seeded_400:
  assumes n: "find (\<lambda>c. c_code c = ''WELCOME10'') (coupons d) = None"
  shows "apply_coupon d now ''WELCOME10'' 400 u
          = (CouponInvalid (MinimumBookingAmountRequired 500),
             d\<lparr>coupons := coupons d @ [welcome10 now]\<rparr>)"
  by (simp only: apply_coupon_seeds [OF n]
      found_coupon_400 [OF is_valid_welcome10 welcome10_fields(1)])

lemma seeded_1000:
  assumes n: "find (\<lambda>c. c_code c = ''WELCOME10'') (coupons d) = None"
    and z: "user_usage_count d u (welcome10 now) = 0"
  shows "apply_coupon d now ''WELCOME10'' 1000 u
           = (CouponValid 100 FIRST_TIME, d\<lparr>coupons := coupons d @ [welcome10 now]\<rparr>)"
proof -
  have nf: "c_coupon_type (welcome10 now) \<noteq> FIXED_AMOUNT"
    by (simp add: welcome10_fields)
  have l: "\<not> (case c_user_usage_limit (welcome10 now) of
                  None \<Rightarrow> False
                | Some l \<Rightarrow> l \<noteq> 0 \<and> int (user_usage_count
                      (d\<lparr>coupons := coupons d @ [welcome10 now]\<rparr>) u (welcome10 now)) \<ge> l)"
    by (simp add: welcome10_fields user_usage_count_coupons z)
  show ?thesis
    by (simp only: apply_coupon_seeds [OF n]
        found_coupon_1000 [OF is_valid_welcome10 welcome10_fields(1) welcome10_fields(2)
          welcome10_fields(3) nf l] welcome10_fields(4))
qed

text \<open>
  Claim C7, as amended. While the WELCOME10 row (first-time type, 10 percent, minimum order
  500, cap 200) is in force, applying it to an order of 400 is rejected with the
  minimum-amount error for every user, and applying it to an order of 1000 yields a
  discount of exactly 100 for every user whose completed payments with the coupon are
  below its per-user limit. When the table has no WELCOME10 row the default one is seeded
  first, and the same holds with that row added.
\<close>

theorem welcome10_coupon:
  "(\<forall>c. find (\<lambda>c. c_code c = ''WELCOME10'') (coupons d) = Some c
        \<and> is_valid c now = None \<and> c_coupon_type c = FIRST_TIME
        \<and> c_discount_percent c = Some 10 \<and> c_min_order_value c = 500
        \<and> c_max_discount c = Some 200 \<longrightarrow>
        apply_coupon d now ''WELCOME10'' 400 u
          = (CouponInvalid (MinimumBookingAmountRequired 500), d)
        \<and> (\<not> (case c_user_usage_limit c of
                  None \<Rightarrow> False
                | Some l \<Rightarrow> l \<noteq> 0 \<and> int (user_usage_count d u c) \<ge> l) \<longrightarrow>
             apply_coupon d now ''WELCOME10'' 1000 u = (CouponValid 100 FIRST_TIME, d)))
   \<and> (find (\<lambda>c. c_code c = ''WELCOME10'') (coupons d) = None \<longrightarrow>
        apply_coupon d now ''WELCOME10'' 400 u
          = (CouponInvalid (MinimumBookingAmountRequired 500),
             d\<lparr>coupons := coupons d @ [welcome10 now]\<rparr>)
        \<and> (user_usage_count d u (welcome10 now) = 0 \<longrightarrow>
             apply_coupon d now ''WELCOME10'' 1000 u
               = (CouponValid 100 FIRST_TIME, d\<lparr>coupons := coupons d @ [welcome10 now]\<rparr>)))"
  using existing_400 [of d _ now u] existing_1000 [of d _ now u]
        seeded_400 [of d now u] seeded_1000 [of d u now]
  by blast

text \<open>
  The claim as stated, for every user, fails for a user who has already completed a payment
  with the coupon.
\<close>

theorem welcome10_used_counterexample:
  "apply_coupon ex_used_coupon_db 1000 ''WELCOME10'' 1000 7
     = (CouponInvalid AlreadyUsedThisCoupon, ex_used_coupon_db)"
  by code_simp

theorem welcome10_coupon_witness:
  "apply_coupon (ex_db []) 1000 ''WELCOME10'' 1000 7
     = (CouponValid 100 FIRST_TIME, (ex_db [])\<lparr>coupons := [welcome10 1000]\<rparr>)
   \<and> apply_coupon (ex_db []) 1000 ''WELCOME10'' 400 7
     = (CouponInvalid (MinimumBookingAmountRequired 500), (ex_db [])\<lparr>coupons := [welcome10 1000]\<rparr>)
   \<and> apply_coupon ex_used_coupon_db 1000 ''WELCOME10'' 1000 8
     = (CouponValid 100 FIRST_TIME, ex_used_coupon_db)
   \<and> apply_coupon ex_used_coupon_db 1000 ''WELCOME10'' 400 7
     = (CouponInvalid (MinimumBookingAmountRequired 500), ex_used_coupon_db)"
proof -
  have n: "find (\<lambda>c. c_code c = ''WELCOME10'') (coupons (ex_db [])) = None"
    by (simp add: ex_db_def)
  have z: "user_usage_count (ex_db []) 7 (welcome10 1000) = 0"
    by (simp add: ex_db_def user_usage_count_def)
  have f: "find (\<lambda>c. c_code c = ''WELCOME10'') (coupons ex_used_coupon_db) = Some (welcome10 0)"
    by (simp add: ex_used_coupon_db_def welcome10_def)
  have v: "is_valid (welcome10 0) 1000 = None"
    by (simp add: is_valid_def welcome10_def microseconds_per_day_def)
  have u8: "user_usage_count ex_used_coupon_db 8 (welcome10 0) = 0"
    by (simp add: ex_used_coupon_db_def user_usage_count_def)
  have c: "coupons (ex_db []) = []" by (simp add: ex_db_def)
  show ?thesis
    using welcome10_coupon [of "ex_db []" 1000 7] welcome10_coupon [of ex_used_coupon_db 1000 8]
          welcome10_coupon [of ex_used_coupon_db 1000 7] n z f v u8
    by (simp add: welcome10_fields c)
qed

section \<open>The seat-availability route\<close>

lemma get_seat_availability_raises:
  "schedule_vehicle d sid = Some sv \<Longrightarrow>
   get_seat_availability d sid td = Inl (AttributeError ''cancelled_at'')"
  by (cases sv) (simp add: get_seat_availability_def Booking_declared_def Let_def)

text \<open>
  Claim C3. The seat-availability route should answer with an available and a booked list
  that are disjoint and together make up \<open>1..total_seats\<close>. For a schedule that exists it
  answers with no lists at all: building the query of recently cancelled bookings raises
  AttributeError, \<open>cancelled_at\<close> not being declared by the class \<open>Booking\<close>.
\<close>

theorem seat_availability_route_raises:
  "get_seat_availability (ex_db [ex_booking 1 7 [3, 1] CONFIRMED, ex_booking 2 8 [2] CART])
       1 (Some 20000)
     = Inl (AttributeError ''cancelled_at'')"
  by code_simp

section \<open>Refund policies\<close>


lemma hours_values:
  "hours_before (hours 50) 0 = 50" "hours_before (hours 10) 0 = 10"
  "hours_before (hours 2) 0 = 2" "hours_before (hours 30) 0 = 30"
  by code_simp+






lemma process_refund_never_refunds:
  "\<exists>e. process_refund g d now u adm req = (Inl e, d)"
  by (simp add: process_refund_def Booking_declared_def split: option.splits)






section \<open>Loyalty discounts\<close>






section \<open>Payment attempts\<close>

lemma fold_max_ge: "(a::int) \<le> fold max xs a"
  by (induction xs arbitrary: a) (auto intro: order_trans [OF max.cobounded2])

lemma fold_max_mem: "x \<in> set xs \<Longrightarrow> (x::int) \<le> fold max xs a"
proof (induction xs arbitrary: a)
  case Nil
  then show ?case by simp
next
  case (Cons y ys)
  show ?case
  proof (cases "x = y")
    case True
    have "y \<le> max y a" by simp
    also have "\<dots> \<le> fold max ys (max y a)" by (rule fold_max_ge)
    finally show ?thesis using True by simp
  next
    case False
    with Cons.prems have "x \<in> set ys" by simp
    then show ?thesis using Cons.IH by simp
  qed
qed

lemma fresh_id_gt: "x \<in> set ids \<Longrightarrow> x < fresh_id ids"
  using fold_max_mem [of x ids 0] by (simp add: fresh_id_def)

lemma find_id_None: "find (\<lambda>b. f b = i) xs = None \<longleftrightarrow> i \<notin> f ` set xs"
  by (auto simp: find_None_iff)

lemma find_fresh_booking:
  "find (\<lambda>b. b_id b = fresh_id (map b_id bs)) bs = None"
  unfolding find_id_None using fresh_id_gt [of "fresh_id (map b_id bs)" "map b_id bs"] by auto


lemma find_append_old: "find P xs = Some y \<Longrightarrow> find P (xs @ zs) = Some y"
  by (induction xs) (auto split: if_splits)

lemma find_map_preserving:
  "(\<And>x. P (g x) = P x) \<Longrightarrow> find P (map g xs) = map_option g (find P xs)"
  by (induction xs) auto

lemma date_of_strptime_date: "date_of (strptime_date dt) = dt"
  by (simp add: date_of_def strptime_date_def microseconds_per_day_def)

lemma payment_frame_refl: "payment_frame i b b"
  by (simp add: payment_frame_def)

lemma payment_frame_trans:
  "payment_frame i a b \<Longrightarrow> payment_frame i b c \<Longrightarrow> payment_frame i a c"
  by (auto simp: payment_frame_def)

lemma db_frame_refl: "db_frame i d d"
  by (simp add: db_frame_def list_all2_refl payment_frame_refl)

lemma db_frame_trans: "db_frame i d d' \<Longrightarrow> db_frame i d' d'' \<Longrightarrow> db_frame i d d''"
  unfolding db_frame_def
  by (auto intro: list_all2_trans [of "payment_frame i" "payment_frame i" "payment_frame i"]
      payment_frame_trans)

lemma db_frame_bookings_eq:
  "bookings d' = bookings d \<Longrightarrow> schedules d' = schedules d \<Longrightarrow> vehicles d' = vehicles d
   \<Longrightarrow> db_frame i d d'"
  by (simp add: db_frame_def list_all2_refl payment_frame_refl)

lemma update_booking_frame:
  assumes "\<And>b. payment_frame (b_id b) b (f b)"
  shows "db_frame i d (update_booking d i f)"
proof -
  have "payment_frame i b (if b_id b = i then f b else b)" for b
    using assms [of b] by (simp add: payment_frame_def)
  then show ?thesis
    by (simp add: db_frame_def update_booking_def list_all2_map2 list_all2_refl)
qed

lemma update_payment_frame: "db_frame i d (update_payment d j f)"
  by (rule db_frame_bookings_eq) (simp_all add: update_payment_def)

lemma frame_find:
  assumes "list_all2 (payment_frame i) xs ys" and "find (\<lambda>b. b_id b = j) xs = Some b"
  shows "\<exists>b'. find (\<lambda>b. b_id b = j) ys = Some b' \<and> payment_frame i b b'"
  using assms
proof (induction xs ys rule: list_all2_induct)
  case Nil
  then show ?case by simp
next
  case (Cons x xs y ys)
  then show ?case by (auto simp: payment_frame_def split: if_splits)
qed

lemma frame_find_other:
  assumes "db_frame i d d'" and "find (\<lambda>b. b_id b = j) (bookings d) = Some b" and "j \<noteq> i"
  shows "find (\<lambda>b. b_id b = j) (bookings d') = Some b"
proof -
  from assms(1) have l: "list_all2 (payment_frame i) (bookings d) (bookings d')"
    by (simp add: db_frame_def)
  from frame_find [OF l assms(2)] obtain b' where
    f: "find (\<lambda>b. b_id b = j) (bookings d') = Some b'" and p: "payment_frame i b b'" by blast
  from assms(2) have "b_id b = j" by (auto simp: find_Some_iff)
  with p assms(3) have "b' = b" by (simp add: payment_frame_def)
  with f show ?thesis by simp
qed

lemma schedule_vehicle_frame:
  "db_frame i d d' \<Longrightarrow> schedule_vehicle d' sid = schedule_vehicle d sid"
  by (auto simp: db_frame_def schedule_vehicle_def split: option.splits)

lemma load_booking_id:
  "load_booking d u req = Inr b \<Longrightarrow>
   find (\<lambda>b. b_id b = pc_booking_id req) (bookings d) = Some b \<and> b_id b = pc_booking_id req
   \<and> b_user_id b = u \<and> (b_status b = CART \<or> b_status b = PENDING)"
  by (auto simp: load_booking_def find_Some_iff split: option.splits if_splits)

lemma revalidate_cart_frame:
  "revalidate_cart d now b = (r, d') \<Longrightarrow> db_frame (b_id b) d d'"
  by (auto simp: revalidate_cart_def db_frame_refl payment_frame_def
      intro!: update_booking_frame split: if_splits sum.splits option.splits)

lemma clear_existing_payment_frame:
  "clear_existing_payment d b = (r, d') \<Longrightarrow> db_frame i d d'"
  by (auto simp: clear_existing_payment_def db_frame_refl
      intro!: db_frame_bookings_eq split: if_splits option.splits)

lemma check_expiry_frame:
  "check_expiry d now b = (r, d') \<Longrightarrow> db_frame (b_id b) d d'"
  by (auto simp: check_expiry_def db_frame_refl payment_frame_def
      intro!: update_booking_frame split: if_splits)

lemma seed_frame:
  "seed_default_coupon_if_known d now code = (r, d') \<Longrightarrow> db_frame i d d'"
  by (auto simp: seed_default_coupon_if_known_def Let_def db_frame_refl
      intro!: db_frame_bookings_eq split: option.splits)

lemma apply_coupon_frame:
  "apply_coupon d now code amount u = (r, d') \<Longrightarrow> db_frame i d d'"
  by (auto simp: apply_coupon_def db_frame_refl dest: seed_frame
      split: option.splits prod.splits bool.splits if_splits)

lemma resolve_discount_frame:
  "resolve_discount d now u req amount = (r, d') \<Longrightarrow> db_frame i d d'"
  by (auto simp: resolve_discount_def Let_def db_frame_refl dest: apply_coupon_frame
      split: option.splits if_splits prod.splits coupon_outcome.splits)

lemma create_payment_frame:
  "create_payment d u req b disc = (r, d') \<Longrightarrow> db_frame i d d'"
  by (auto simp: create_payment_def Let_def db_frame_refl intro!: db_frame_bookings_eq
      split: prod.splits if_splits)


lemma settle_frame:
  "settle pnr d now b p g = (r, d') \<Longrightarrow> db_frame (b_id b) d d'"
proof (cases g)
  case (GatewaySuccess tx resp)
  assume "settle pnr d now b p g = (r, d')"
  with GatewaySuccess have d': "d' = update_booking
             (update_payment d (p_id p)
                (\<lambda>p. p\<lparr>p_status := P_COMPLETED, p_transaction_id := Some tx,
                        p_gateway_response := Some resp, p_payment_time := Some now\<rparr>))
             (b_id b)
             (\<lambda>b. b\<lparr>b_status := CONFIRMED, b_pnr := Some pnr, b_confirmed_at := Some now\<rparr>)"
    by (simp add: settle_def)
  show ?thesis
    unfolding d'
    by (rule db_frame_trans [OF update_payment_frame update_booking_frame])
       (simp add: payment_frame_def)
next
  case (GatewayFailure err)
  assume "settle pnr d now b p g = (r, d')"
  with GatewayFailure show ?thesis
    by (auto simp: settle_def intro: db_frame_trans [OF update_payment_frame update_payment_frame])
qed








lemma pre_gateway_Inr:
  assumes "pre_gateway d now u req = (Inr (b, p), d')"
  obtains b0 d1 d2 d3 d4 disc where
    "load_booking d u req = Inr b0" "revalidate_cart d now b0 = (Inr b, d1)"
    "clear_existing_payment d1 b = (Inr (), d2)" "check_expiry d2 now b = (Inr (), d3)"
    "resolve_discount d3 now u req (fl (b_total_price b)) = (Inr disc, d4)"
    "create_payment d4 u req b disc = (Inr p, d')"
  using assms
  by (auto simp: pre_gateway_def split: sum.splits prod.splits)

lemma find_updated_payment:
  assumes "find (\<lambda>q. p_id q = i) ps = None" and "p_id p = i" and "\<And>q. p_id (f q) = p_id q"
  shows "find (\<lambda>q. p_id q = i) (map (\<lambda>q. if p_id q = i then f q else q) (ps @ [p])) = Some (f p)"
  using assms(1)
  by (induction ps) (auto simp: assms(2) assms(3) split: if_splits)




section \<open>Two carts for one seat\<close>

lemma pre_gateway_frame:
  assumes "pre_gateway d now u req = (r, d')"
  shows "db_frame (pc_booking_id req) d d'"
proof (cases "load_booking d u req")
  case (Inl e)
  with assms show ?thesis by (simp add: pre_gateway_def db_frame_refl)
next
  case (Inr b0)
  from load_booking_id [OF Inr] have i0: "b_id b0 = pc_booking_id req" by simp
  obtain r1 d1 where rv: "revalidate_cart d now b0 = (r1, d1)" by (cases "revalidate_cart d now b0")
  from revalidate_cart_frame [OF rv] i0 have f1: "db_frame (pc_booking_id req) d d1" by simp
  show ?thesis
  proof (cases r1)
    case (Inl e)
    with assms Inr rv f1 show ?thesis by (simp add: pre_gateway_def)
  next
    case b: (Inr b)
    from rv b have ib: "b_id b = pc_booking_id req"
      using i0 by (auto simp: revalidate_cart_def split: if_splits sum.splits option.splits)
    obtain r2 d2 where ce: "clear_existing_payment d1 b = (r2, d2)"
      by (cases "clear_existing_payment d1 b")
    have f2: "db_frame (pc_booking_id req) d d2"
      by (rule db_frame_trans [OF f1 clear_existing_payment_frame [OF ce]])
    show ?thesis
    proof (cases r2)
      case (Inl e)
      with assms Inr rv b ce f2 show ?thesis by (simp add: pre_gateway_def)
    next
      case u2: (Inr x2)
      obtain r3 d3 where ex: "check_expiry d2 now b = (r3, d3)" by (cases "check_expiry d2 now b")
      have f3: "db_frame (pc_booking_id req) d d3"
        using db_frame_trans [OF f2] check_expiry_frame [OF ex] ib by simp
      show ?thesis
      proof (cases r3)
        case (Inl e)
        with assms Inr rv b ce u2 ex f3 show ?thesis by (simp add: pre_gateway_def)
      next
        case u3: (Inr x3)
        obtain r4 d4 where rd: "resolve_discount d3 now u req (fl (b_total_price b)) = (r4, d4)"
          by (cases "resolve_discount d3 now u req (fl (b_total_price b))")
        have f4: "db_frame (pc_booking_id req) d d4"
          by (rule db_frame_trans [OF f3 resolve_discount_frame [OF rd]])
        show ?thesis
        proof (cases r4)
          case (Inl e)
          with assms Inr rv b ce u2 ex u3 rd f4 show ?thesis by (simp add: pre_gateway_def)
        next
          case disc: (Inr disc)
          obtain r5 d5 where cp: "create_payment d4 u req b disc = (r5, d5)"
            by (cases "create_payment d4 u req b disc")
          have f5: "db_frame (pc_booking_id req) d d5"
            by (rule db_frame_trans [OF f4 create_payment_frame [OF cp]])
          from assms Inr rv b ce u2 ex u3 rd disc cp f5 show ?thesis
            by (cases r5) (auto simp: pre_gateway_def)
        qed
      qed
    qed
  qed
qed

lemma pre_gateway_booking_id:
  "pre_gateway d now u req = (Inr (b, p), d') \<Longrightarrow> b_id b = pc_booking_id req"
proof -
  assume a: "pre_gateway d now u req = (Inr (b, p), d')"
  from a obtain b0 d1 where lb: "load_booking d u req = Inr b0"
    and rv: "revalidate_cart d now b0 = (Inr b, d1)"
    by (rule pre_gateway_Inr)
  from load_booking_id [OF lb] have "b_id b0 = pc_booking_id req" by simp
  with rv show ?thesis
    by (auto simp: revalidate_cart_def split: if_splits sum.splits option.splits)
qed

lemma process_booking_payment_frame:
  assumes "process_booking_payment gw pnr d now u req = (r, d')"
  shows "db_frame (pc_booking_id req) d d'"
proof -
  obtain r1 d1 where pg: "pre_gateway d now u req = (r1, d1)"
    by (cases "pre_gateway d now u req")
  note f1 = pre_gateway_frame [OF pg]
  show ?thesis
  proof (cases r1)
    case (Inl e)
    with assms pg f1 show ?thesis by (simp add: process_booking_payment_def)
  next
    case (Inr bp)
    obtain b p where bp: "bp = (b, p)" by (cases bp)
    from pg Inr bp have pg': "pre_gateway d now u req = (Inr (b, p), d1)" by simp
    from assms pg' have st: "settle pnr d1 now b p
        (gw (pc_payment_method req) (p_final_amount p) (b_id b) (p_id p)) = (r, d')"
      by (simp add: process_booking_payment_def)
    from settle_frame [OF st] pre_gateway_booking_id [OF pg']
    have "db_frame (pc_booking_id req) d1 d'" by simp
    with f1 show ?thesis by (rule db_frame_trans)
  qed
qed

lemma check_availability_Inr:
  assumes "check_availability d now sid seats cls (Some dt) = Inr av"
  obtains s v where "schedule_vehicle d sid = Some (s, v)"
    and "s_is_active s \<noteq> None" and "s_is_active s \<noteq> Some 0" and "\<not> dt < date_of now"
  using assms
  by (auto simp: check_availability_def Let_def split: option.splits prod.splits if_splits)

lemma check_availability_conflict:
  assumes "schedule_vehicle d sid = Some (s, v)"
    and "set seats \<inter> set (booked_seats d sid (Some dt)) \<noteq> {}"
  shows "\<exists>m. check_availability d now sid seats cls (Some dt) = Inl m"
    and "s_is_active s \<noteq> None \<Longrightarrow> s_is_active s \<noteq> Some 0 \<Longrightarrow> \<not> dt < date_of now \<Longrightarrow>
         check_availability d now sid seats cls (Some dt)
           = Inl (SeatsAlreadyBooked (set seats \<inter> set (booked_seats d sid (Some dt))))"
  using assms by (auto simp: check_availability_def Let_def)

lemma create_booking_Inr:
  assumes "create_booking d now u r = (Inr i, d')"
  obtains nb av where
    "check_availability d now (bc_schedule_id r) (bc_seats r) (bc_seat_class r)
       (Some (bc_travel_date r)) = Inr av"
    and "bookings d' = bookings d @ [nb]" and "schedules d' = schedules d"
    and "vehicles d' = vehicles d"
    and "i = fresh_id (map b_id (bookings d))" and "b_id nb = i" and "b_user_id nb = u"
    and "b_status nb = CART" and "b_seats nb = bc_seats r"
    and "b_schedule_id nb = Some (bc_schedule_id r)"
    and "b_travel_date nb = Some (strptime_date (bc_travel_date r))"
    and "b_seat_class nb = bc_seat_class r"
proof (cases "check_availability d now (bc_schedule_id r) (bc_seats r) (bc_seat_class r)
       (Some (bc_travel_date r))")
  case (Inl m)
  with assms show ?thesis by (simp add: create_booking_def)
next
  case (Inr av)
  with assms that [OF Inr] show ?thesis
    by (auto simp: create_booking_def Let_def)
qed

lemma schedule_vehicle_catalog:
  "schedules d' = schedules d \<Longrightarrow> vehicles d' = vehicles d
   \<Longrightarrow> schedule_vehicle d' sid = schedule_vehicle d sid"
  by (auto simp: schedule_vehicle_def split: option.splits)

lemma find_Some_mem: "find P xs = Some x \<Longrightarrow> x \<in> set xs \<and> P x"
  by (auto simp: find_Some_iff)

lemma update_booking_cart_noop:
  assumes "find (\<lambda>b. b_id b = i) (bookings d) = Some b" and "b_status b = CART"
  shows "find (\<lambda>b. b_id b = i) (bookings (update_booking d i (\<lambda>b. b\<lparr>b_status := CART\<rparr>)))
           = Some b"
proof -
  have "find (\<lambda>b. b_id b = i)
          (map (\<lambda>b. if b_id b = i then b\<lparr>b_status := CART\<rparr> else b) (bookings d))
        = map_option (\<lambda>b. if b_id b = i then b\<lparr>b_status := CART\<rparr> else b)
            (find (\<lambda>b. b_id b = i) (bookings d))"
    by (rule find_map_preserving) simp
  with assms find_Some_mem [OF assms(1)] show ?thesis
    by (simp add: update_booking_def)
qed

lemma booked_seats_cart_row:
  assumes "bookings d' = bookings d @ [nb]" and "b_status nb = CART"
  shows "booked_seats d' sid td = booked_seats d sid td"
  using assms by (simp add: booked_seats_def booked_rows_def)

lemma check_availability_cart_row:
  assumes "bookings d' = bookings d @ [nb]" and "b_status nb = CART"
    and "schedules d' = schedules d" and "vehicles d' = vehicles d"
  shows "check_availability d' now sid seats cls td = check_availability d now sid seats cls td"
  unfolding check_availability_def booked_seats_cart_row [OF assms(1) assms(2)]
    schedule_vehicle_catalog [OF assms(3) assms(4)]
  by (rule refl)

lemma check_availability_Inr_free:
  assumes "check_availability d now sid seats cls (Some dt) = Inr av"
  shows "set seats \<inter> set (booked_seats d sid (Some dt)) = {}"
  using assms
  by (auto simp: check_availability_def Let_def split: option.splits prod.splits if_splits)

lemma frame_row:
  assumes "list_all2 (payment_frame i) xs ys" and "y \<in> set ys"
  shows "\<exists>x \<in> set xs. payment_frame i x y"
  using assms by (induction xs ys rule: list_all2_induct) auto

lemma process_booking_payment_confirms:
  assumes "process_booking_payment gw pnr d now u req = (Inr x, d')"
  shows "map_option b_status (find (\<lambda>b. b_id b = pc_booking_id req) (bookings d'))
           = Some CONFIRMED"
proof -
  obtain r1 d1 where pg0: "pre_gateway d now u req = (r1, d1)"
    by (cases "pre_gateway d now u req")
  with assms obtain b p where pg: "pre_gateway d now u req = (Inr (b, p), d1)"
    by (cases r1) (auto simp: process_booking_payment_def)
  let ?g = "\<lambda>b'. if b_id b' = b_id b
                  then b'\<lparr>b_status := CONFIRMED, b_pnr := Some pnr, b_confirmed_at := Some now\<rparr>
                  else b'"
  from assms pg have st: "settle pnr d1 now b p
      (gw (pc_payment_method req) (p_final_amount p) (b_id b) (p_id p)) = (Inr x, d')"
    by (simp add: process_booking_payment_def)
  then have d': "bookings d' = map ?g (bookings d1)"
    by (auto simp: settle_def update_booking_def update_payment_def split: gateway_result.splits)
  note ib = pre_gateway_booking_id [OF pg]
  from pg obtain b0 where lb: "load_booking d u req = Inr b0" by (rule pre_gateway_Inr)
  from load_booking_id [OF lb]
  have f0: "find (\<lambda>b. b_id b = pc_booking_id req) (bookings d) = Some b0" by simp
  from pre_gateway_frame [OF pg]
  have "list_all2 (payment_frame (pc_booking_id req)) (bookings d) (bookings d1)"
    by (simp add: db_frame_def)
  from frame_find [OF this f0] obtain b1 where
    f1: "find (\<lambda>b. b_id b = pc_booking_id req) (bookings d1) = Some b1" by blast
  have "find (\<lambda>b. b_id b = pc_booking_id req) (map ?g (bookings d1))
          = map_option ?g (find (\<lambda>b. b_id b = pc_booking_id req) (bookings d1))"
    by (rule find_map_preserving) simp
  with d' f1 find_Some_mem [OF f1] ib show ?thesis by simp
qed

text \<open>
  Claim C1. A booking of seats 1 and 2 is created, then a booking of seats 2 and 3 for the
  same schedule and travel date, the first still unpaid: both rows are in status CART,
  and the first cart row changes the answer of no availability check. When the payment
  request for the first booking completes, its row is CONFIRMED (it is PENDING when the
  request got as far as the gateway and failed there). A payment request for the second
  booking that follows fails whoever sends it, and leaves the second row in status CART;
  sent by the owner of the booking it is answered ``Seats are no longer available'', and
  the message inside is the seat conflict on seat 2 as long as the travel date has not
  passed.
\<close>

theorem cart_conflict_caught_at_payment:
  assumes c1: "create_booking d t0 u1 r1 = (Inr id1, d1)"
    and c2: "create_booking d1 t1 u2 r2 = (Inr id2, d2)"
    and s1: "bc_seats r1 = [1, 2]" and s2: "bc_seats r2 = [2, 3]"
    and sch: "bc_schedule_id r2 = bc_schedule_id r1"
    and dt: "bc_travel_date r2 = bc_travel_date r1"
    and q1: "pc_booking_id req1 = id1" and q2: "pc_booking_id req2 = id2"
    and p1: "process_booking_payment gw1 pnr1 d2 t2 ua req1 = (res1, d3)"
    and paid: "\<not> isl res1
         \<or> map_option b_status (find (\<lambda>b. b_id b = id1) (bookings d3)) = Some PENDING"
    and p2: "process_booking_payment gw2 pnr2 d3 t3 ub req2 = (res2, d4)"
  shows "map_option b_status (find (\<lambda>b. b_id b = id1) (bookings d2)) = Some CART
    \<and> map_option b_status (find (\<lambda>b. b_id b = id2) (bookings d2)) = Some CART
    \<and> check_availability d1 t sid seats cls td = check_availability d t sid seats cls td
    \<and> map_option b_status (find (\<lambda>b. b_id b = id1) (bookings d3))
        = Some (if isl res1 then PENDING else CONFIRMED)
    \<and> isl res2
    \<and> map_option b_status (find (\<lambda>b. b_id b = id2) (bookings d4)) = Some CART
    \<and> (ub = u2 \<longrightarrow> (\<exists>m. res2 = Inl (SeatsNoLongerAvailable m)))
    \<and> (ub = u2 \<and> date_of t3 \<le> bc_travel_date r1 \<longrightarrow>
         res2 = Inl (SeatsNoLongerAvailable (SeatsAlreadyBooked {2})))"
proof -
  let ?sid = "bc_schedule_id r1" and ?dt = "bc_travel_date r1"
  from c1 obtain nb1 av1 where
    av1: "check_availability d t0 ?sid (bc_seats r1) (bc_seat_class r1) (Some ?dt) = Inr av1"
    and bk1: "bookings d1 = bookings d @ [nb1]" and sc1: "schedules d1 = schedules d"
    and vh1: "vehicles d1 = vehicles d" and i1: "id1 = fresh_id (map b_id (bookings d))"
    and n1: "b_id nb1 = id1" "b_status nb1 = CART" "b_seats nb1 = bc_seats r1"
      "b_schedule_id nb1 = Some ?sid" "b_travel_date nb1 = Some (strptime_date ?dt)"
    by (rule create_booking_Inr)
  from c2 obtain nb2 av2 where
    av2: "check_availability d1 t1 (bc_schedule_id r2) (bc_seats r2) (bc_seat_class r2)
            (Some (bc_travel_date r2)) = Inr av2"
    and bk2: "bookings d2 = bookings d1 @ [nb2]" and sc2: "schedules d2 = schedules d1"
    and vh2: "vehicles d2 = vehicles d1" and i2: "id2 = fresh_id (map b_id (bookings d1))"
    and n2: "b_id nb2 = id2" "b_user_id nb2 = u2" "b_status nb2 = CART"
      "b_seats nb2 = bc_seats r2" "b_schedule_id nb2 = Some (bc_schedule_id r2)"
      "b_travel_date nb2 = Some (strptime_date (bc_travel_date r2))"
      "b_seat_class nb2 = bc_seat_class r2"
    by (rule create_booking_Inr)
  from av1 obtain s v where sv: "schedule_vehicle d ?sid = Some (s, v)"
    and act: "s_is_active s \<noteq> None" "s_is_active s \<noteq> Some 0"
    by (rule check_availability_Inr)
  \<comment> \<open>the cart row of the first booking changes no availability answer\<close>
  have bs1: "booked_seats d1 sid' td' = booked_seats d sid' td'" for sid' td'
    using bk1 n1(2) by (rule booked_seats_cart_row)
  have F: "check_availability d1 t sid seats cls td = check_availability d t sid seats cls td"
    using bk1 n1(2) sc1 vh1 by (rule check_availability_cart_row)
  from check_availability_Inr_free [OF av2] s2 sch dt
  have free: "3 \<notin> set (booked_seats d ?sid (Some ?dt))"
    by (simp add: bs1)
  \<comment> \<open>the two rows after both creations\<close>
  have f11: "find (\<lambda>b. b_id b = id1) (bookings d1) = Some nb1"
    unfolding bk1
    using find_appended_coupon [of "\<lambda>b. b_id b = id1" "bookings d" nb1]
      find_fresh_booking [of "bookings d"] i1 n1(1)
    by simp
  have f12: "find (\<lambda>b. b_id b = id1) (bookings d2) = Some nb1"
    unfolding bk2 using f11 by (rule find_append_old)
  have "id1 \<in> set (map b_id (bookings d1))"
    unfolding bk1 using n1(1) by simp
  from fresh_id_gt [OF this] i2 have ne: "id2 \<noteq> id1" by simp
  have f22: "find (\<lambda>b. b_id b = id2) (bookings d2) = Some nb2"
    unfolding bk2
    using find_appended_coupon [of "\<lambda>b. b_id b = id2" "bookings d1" nb2]
      find_fresh_booking [of "bookings d1"] i2 n2(1)
    by simp
  \<comment> \<open>the first payment\<close>
  from process_booking_payment_frame [OF p1] q1 have fr: "db_frame id1 d2 d3" by simp
  then have l: "list_all2 (payment_frame id1) (bookings d2) (bookings d3)"
    and cat3: "schedules d3 = schedules d2" "vehicles d3 = vehicles d2"
    by (simp_all add: db_frame_def)
  from frame_find [OF l f12] obtain b1' where
    a1: "find (\<lambda>b. b_id b = id1) (bookings d3) = Some b1'" and pf: "payment_frame id1 nb1 b1'"
    by blast
  have G: "map_option b_status (find (\<lambda>b. b_id b = id1) (bookings d3))
             = Some (if isl res1 then PENDING else CONFIRMED)"
  proof (cases res1)
    case (Inl e)
    with paid show ?thesis by simp
  next
    case (Inr x)
    with p1 q1 process_booking_payment_confirms [of gw1 pnr1 d2 t2 ua req1 x d3]
    show ?thesis by simp
  qed
  with a1 have a2: "b_status b1' = PENDING \<or> b_status b1' = CONFIRMED"
    by (simp split: if_splits)
  have f23: "find (\<lambda>b. b_id b = id2) (bookings d3) = Some nb2"
    using fr f22 ne by (rule frame_find_other)
  have sv3: "schedule_vehicle d3 ?sid = Some (s, v)"
    using sv schedule_vehicle_catalog [of d3 d ?sid] cat3 sc2 vh2 sc1 vh1 by simp
  have "b1' \<in> set (bookings d3)" using find_Some_mem [OF a1] by simp
  moreover have "b_schedule_id b1' = Some ?sid" "b_seats b1' = [1, 2]"
    "b_travel_date b1' = Some (strptime_date ?dt)"
    using pf n1 s1 by (simp_all add: payment_frame_def)
  ultimately have two: "2 \<in> set (booked_seats d3 ?sid (Some ?dt))"
    unfolding in_booked_seats_iff using a2
    by (auto simp: on_travel_date_def date_of_strptime_date intro!: bexI [of _ b1'])
  have three: "3 \<notin> set (booked_seats d3 ?sid (Some ?dt))"
  proof
    assume "3 \<in> set (booked_seats d3 ?sid (Some ?dt))"
    then obtain b' where b': "b' \<in> set (bookings d3)" "b_schedule_id b' = Some ?sid"
      "b_status b' = CONFIRMED \<or> b_status b' = PENDING" "on_travel_date (Some ?dt) b'"
      "3 \<in> set (b_seats b')"
      unfolding in_booked_seats_iff by blast
    from frame_row [OF l b'(1)] obtain b where
      b: "b \<in> set (bookings d2)" "payment_frame id1 b b'" by blast
    from b(1) bk2 bk1 have mem: "b \<in> set (bookings d) \<or> b = nb1 \<or> b = nb2" by auto
    show False
    proof (cases "b_id b = id1")
      case True
      have "b \<notin> set (bookings d)"
      proof
        assume "b \<in> set (bookings d)"
        then have "b_id b \<in> set (map b_id (bookings d))" by simp
        from fresh_id_gt [OF this] True i1 show False by simp
      qed
      moreover have "b \<noteq> nb2" using True n2(1) ne by auto
      ultimately have "b = nb1" using mem by blast
      with b(2) b'(5) n1(3) s1 show False by (simp add: payment_frame_def)
    next
      case False
      with b(2) have eq: "b' = b" by (simp add: payment_frame_def)
      have "b \<noteq> nb1" using False n1(1) by auto
      moreover have "b \<noteq> nb2" using b'(3) eq n2(3) by auto
      ultimately have "b \<in> set (bookings d)" using mem by blast
      with b'(2-5) eq have "3 \<in> set (booked_seats d ?sid (Some ?dt))"
        unfolding in_booked_seats_iff by blast
      with free show False by simp
    qed
  qed
  have conf: "set (b_seats nb2) \<inter> set (booked_seats d3 ?sid (Some ?dt)) = {2}"
    using n2(4) s2 two three by auto
  then have conf': "set (b_seats nb2) \<inter> set (booked_seats d3 ?sid (Some ?dt)) \<noteq> {}"
    by simp
  \<comment> \<open>the second payment\<close>
  have td2: "map_option date_of (b_travel_date nb2) = Some ?dt"
    using n2(6) dt by (simp add: date_of_strptime_date)
  have sid2: "b_schedule_id nb2 = Some ?sid" using n2(5) sch by simp
  from check_availability_conflict(1) [OF sv3 conf', of t3 "b_seat_class nb2"]
  obtain m where m: "check_availability d3 t3 ?sid (b_seats nb2) (b_seat_class nb2) (Some ?dt)
                       = Inl m"
    by blast
  have rv: "revalidate_cart d3 t3 nb2
              = (Inl (SeatsNoLongerAvailable m),
                 update_booking d3 id2 (\<lambda>b. b\<lparr>b_status := CART\<rparr>))"
    by (simp add: revalidate_cart_def n2(3) sid2 td2 m n2(1))
  have keep: "find (\<lambda>b. b_id b = id2)
                (bookings (update_booking d3 id2 (\<lambda>b. b\<lparr>b_status := CART\<rparr>))) = Some nb2"
    using f23 n2(3) by (rule update_booking_cart_noop)
  have res: "(res2 = Inl AccessDenied \<and> d4 = d3 \<and> ub \<noteq> u2)
      \<or> (res2 = Inl (SeatsNoLongerAvailable m)
          \<and> d4 = update_booking d3 id2 (\<lambda>b. b\<lparr>b_status := CART\<rparr>) \<and> ub = u2)"
  proof (cases "ub = u2")
    case True
    have "load_booking d3 ub req2 = Inr nb2"
      using f23 q2 n2(2) n2(3) True by (simp add: load_booking_def)
    then have "pre_gateway d3 t3 ub req2
                 = (Inl (SeatsNoLongerAvailable m),
                    update_booking d3 id2 (\<lambda>b. b\<lparr>b_status := CART\<rparr>))"
      by (simp add: pre_gateway_def rv)
    with p2 True show ?thesis by (simp add: process_booking_payment_def)
  next
    case False
    have "load_booking d3 ub req2 = Inl AccessDenied"
      using f23 q2 n2(2) False by (auto simp: load_booking_def)
    then have "pre_gateway d3 t3 ub req2 = (Inl AccessDenied, d3)"
      by (simp add: pre_gateway_def)
    with p2 False show ?thesis by (simp add: process_booking_payment_def)
  qed
  have A: "map_option b_status (find (\<lambda>b. b_id b = id1) (bookings d2)) = Some CART"
    by (simp add: f12 n1(2))
  have B: "map_option b_status (find (\<lambda>b. b_id b = id2) (bookings d2)) = Some CART"
    by (simp add: f22 n2(3))
  have C: "isl res2" using res by auto
  have D: "map_option b_status (find (\<lambda>b. b_id b = id2) (bookings d4)) = Some CART"
    using res f23 keep n2(3) by auto
  have E: "ub = u2 \<and> date_of t3 \<le> ?dt \<longrightarrow>
         res2 = Inl (SeatsNoLongerAvailable (SeatsAlreadyBooked {2}))"
  proof
    assume h: "ub = u2 \<and> date_of t3 \<le> ?dt"
    then have np: "\<not> ?dt < date_of t3" by simp
    from check_availability_conflict(2) [OF sv3 conf' act np, of "b_seat_class nb2"] m conf
    have "m = SeatsAlreadyBooked {2}" by simp
    with res h show "res2 = Inl (SeatsNoLongerAvailable (SeatsAlreadyBooked {2}))"
      by auto
  qed
  have H: "ub = u2 \<longrightarrow> (\<exists>m. res2 = Inl (SeatsNoLongerAvailable m))"
    using res by auto
  from A B F G C D H E show ?thesis by blast
qed

theorem cart_conflict_caught_at_payment_witness:
  "map_option b_status (find (\<lambda>b. b_id b = 1) (bookings ex_two_carts)) = Some CART
   \<and> map_option b_status (find (\<lambda>b. b_id b = 2) (bookings ex_two_carts)) = Some CART
   \<and> map_option b_status (find (\<lambda>b. b_id b = 1) (bookings ex_first_paid)) = Some CONFIRMED
   \<and> fst (process_booking_payment ex_approving_gateway ''TK654321'' ex_first_paid ex_now 8
            (ex_pay_request 2 None))
       = Inl (SeatsNoLongerAvailable (SeatsAlreadyBooked {2}))
   \<and> map_option b_status
        (find (\<lambda>b. b_id b = 2)
           (bookings (snd (process_booking_payment ex_approving_gateway ''TK654321''
                             ex_first_paid ex_now 8 (ex_pay_request 2 None)))))
       = Some CART"
proof -
  have "fst (create_booking (ex_db []) ex_now 7 (ex_create [1, 2])) = Inr 1" by code_simp
  then have c1: "create_booking (ex_db []) ex_now 7 (ex_create [1, 2]) = (Inr 1, ex_one_cart)"
    by (simp add: ex_one_cart_def prod_eq_iff)
  have "fst (create_booking ex_one_cart ex_now 8 (ex_create [2, 3])) = Inr 2" by code_simp
  then have c2: "create_booking ex_one_cart ex_now 8 (ex_create [2, 3]) = (Inr 2, ex_two_carts)"
    by (simp add: ex_two_carts_def prod_eq_iff)
  have s1: "bc_seats (ex_create [1, 2]) = [1, 2]" and s2: "bc_seats (ex_create [2, 3]) = [2, 3]"
    and sch: "bc_schedule_id (ex_create [2, 3]) = bc_schedule_id (ex_create [1, 2])"
    and dt: "bc_travel_date (ex_create [2, 3]) = bc_travel_date (ex_create [1, 2])"
    by (simp_all add: ex_create_def)
  have q1: "pc_booking_id (ex_pay_request 1 None) = 1"
    and q2: "pc_booking_id (ex_pay_request 2 None) = 2"
    by (simp_all add: ex_pay_request_def)
  have r1: "fst (process_booking_payment ex_approving_gateway ''TK123456'' ex_two_carts ex_now 7
                   (ex_pay_request 1 None)) = Inr (1, ''CARD-TX'')"
    by code_simp
  then have p1: "process_booking_payment ex_approving_gateway ''TK123456'' ex_two_carts ex_now 7
                   (ex_pay_request 1 None) = (Inr (1, ''CARD-TX''), ex_first_paid)"
    by (simp add: ex_first_paid_def prod_eq_iff)
  have paid: "\<not> isl (Inr (1, ''CARD-TX'') :: pay_error + int \<times> string)
      \<or> map_option b_status (find (\<lambda>b. b_id b = 1) (bookings ex_first_paid)) = Some PENDING"
    by simp
  have p2: "process_booking_payment ex_approving_gateway ''TK654321'' ex_first_paid ex_now 8
              (ex_pay_request 2 None)
            = (fst (process_booking_payment ex_approving_gateway ''TK654321'' ex_first_paid
                      ex_now 8 (ex_pay_request 2 None)),
               snd (process_booking_payment ex_approving_gateway ''TK654321'' ex_first_paid
                      ex_now 8 (ex_pay_request 2 None)))"
    by simp
  have day: "date_of ex_now \<le> bc_travel_date (ex_create [1, 2])"
    by (simp add: ex_now_def ex_create_def date_of_strptime_date)
  show ?thesis
    using cart_conflict_caught_at_payment [OF c1 c2 s1 s2 sch dt q1 q2 p1 paid p2] day
    by simp
qed

end
